theory Spec2Isabelle
  imports Complex_Main "HOL-Library.Word"
begin

section \<open>Numbers, durations and clock readings\<close>

text \<open>
  Go's \<open>int64\<close> counters are 64-bit words: \<open>+\<close> wraps, \<open>sint\<close> reads the signed value.
  A \<open>float64\<close> is either a finite number, an infinity or NaN. Finite values are kept as
  exact reals (rounding to 53 bits and the sign of zero are not represented); what is
  represented is which operations leave the finite numbers, so that a division by zero
  shows in the result.
\<close>

type_synonym int64 = "64 word"

datatype float64 = Fin real | PosInf | NegInf | NaN

definition float64_of_int64 :: "int64 \<Rightarrow> float64" where
  "float64_of_int64 w = Fin (real_of_int (sint w))"

definition float64_of_int :: "int \<Rightarrow> float64" where
  "float64_of_int n = Fin (real_of_int n)"

fun f64_div :: "float64 \<Rightarrow> float64 \<Rightarrow> float64" where
  "f64_div NaN y = NaN"
| "f64_div x NaN = NaN"
| "f64_div (Fin a) (Fin b) =
     (if b \<noteq> 0 then Fin (a / b) else if a = 0 then NaN else if 0 < a then PosInf else NegInf)"
| "f64_div (Fin a) y = Fin 0"
| "f64_div PosInf (Fin b) = (if 0 \<le> b then PosInf else NegInf)"
| "f64_div NegInf (Fin b) = (if 0 \<le> b then NegInf else PosInf)"
| "f64_div x y = NaN"

text \<open>
  A \<open>time.Duration\<close> is a number of nanoseconds in an \<open>int64\<close>; a clock reading is a
  number of nanoseconds since the Unix epoch. \<open>time.Time{}\<close> is 1 January of year 1, and
  \<open>Time.Sub\<close> saturates at the largest and smallest duration.
\<close>

definition Second :: int where
  "Second = 1000000000"

definition zeroTime :: int where
  "zeroTime = - 62135596800 * 1000000000"

definition maxDuration :: int where
  "maxDuration = 2 ^ 63 - 1"

definition minDuration :: int where
  "minDuration = - (2 ^ 63)"

definition Sub :: "int \<Rightarrow> int \<Rightarrow> int" where
  "Sub t u = (if t - u > maxDuration then maxDuration
              else if t - u < minDuration then minDuration else t - u)"

definition Since :: "int \<Rightarrow> int \<Rightarrow> int" where
  "Since now t = Sub now t"

definition UnixMilli :: "int \<Rightarrow> int" where
  "UnixMilli t = t div 1000000"

definition Seconds :: "int \<Rightarrow> float64" where
  "Seconds d = Fin (real_of_int d / 1000000000)"

section \<open>metrics: the collector\<close>

record ErrorEntry =
  Timestamp :: int
  Message :: string

record OperationStats =
  QPS :: float64
  LatencyP50 :: float64
  LatencyP99 :: float64
  LatencyAvg :: float64
  Errors :: int64

record TotalStats =
  Queries :: int64
  TotalErrors :: int64
  ErrorRate :: float64

record PoolStats =
  ActiveConnections :: int
  IdleConnections :: int
  WaitingRequests :: int

definition zeroPoolStats :: PoolStats where
  "zeroPoolStats = \<lparr>ActiveConnections = 0, IdleConnections = 0, WaitingRequests = 0\<rparr>"

text \<open>
  \<open>MetricsSnapshot\<close>. The Go struct carries the window counts only through the two QPS
  fields (count divided by the interval). \<open>WindowReads\<close> and \<open>WindowWrites\<close> are the
  locals \<open>readCount\<close> and \<open>writeCount\<close> of \<open>Snapshot\<close>, the values the two swaps
  returned, kept beside the quotient.
\<close>

record MetricsSnapshot =
  SnapTimestamp :: int
  Reads :: OperationStats
  Writes :: OperationStats
  Totals :: TotalStats
  Pool :: PoolStats
  RecentErrors :: "ErrorEntry list"
  WindowReads :: int64
  WindowWrites :: int64

text \<open>
  Modelled from the spec: the latency histogram, whose type and operations are not among
  the source files. Each record adds one latency to the current window and
  snapshot-and-reset returns p50, p99 and average and zeroes all state. A histogram is
  kept as the latencies recorded in the current window; what \<open>SnapshotAndReset\<close>
  computes from them is the parameter \<open>hs\<close> of \<open>Snapshot\<close>.
\<close>

record HistogramSnapshot =
  P50 :: float64
  P99 :: float64
  Avg :: float64

record Collector =
  readLatencies :: "int list"
  writeLatencies :: "int list"
  readCount :: int64
  writeCount :: int64
  readErrors :: int64
  writeErrors :: int64
  totalQueries :: int64
  totalErrors :: int64
  recentErrors :: "ErrorEntry list"
  lastErrorTime :: int
  maxRecentErrors :: nat
  hasPoolStatsFunc :: bool
  startTime :: int

definition NewCollector :: "bool \<Rightarrow> int \<Rightarrow> Collector" where
  "NewCollector hasFunc now =
     \<lparr>readLatencies = [], writeLatencies = [],
      readCount = 0, writeCount = 0, readErrors = 0, writeErrors = 0,
      totalQueries = 0, totalErrors = 0,
      recentErrors = [], lastErrorTime = zeroTime, maxRecentErrors = 10,
      hasPoolStatsFunc = hasFunc, startTime = now\<rparr>"

text \<open>
  \<open>addError\<close> reads the clock three times: for \<open>time.Since\<close>, for the new
  \<open>lastErrorTime\<close> and for the entry's timestamp. The three readings are arguments.
\<close>

definition addError :: "int \<Rightarrow> int \<Rightarrow> int \<Rightarrow> string \<Rightarrow> Collector \<Rightarrow> Collector" where
  "addError t1 t2 t3 errMsg c =
     (if Since t1 (lastErrorTime c) < 10 * Second then c
      else
        let entry = \<lparr>Timestamp = UnixMilli t3, Message = errMsg\<rparr>;
            es = recentErrors c @ [entry];
            es' = (if length es > maxRecentErrors c
                   then drop (length es - maxRecentErrors c) es else es)
        in c\<lparr>lastErrorTime := t2, recentErrors := es'\<rparr>)"

text \<open>The error argument is \<open>None\<close> for \<open>nil\<close> and \<open>Some (err.Error())\<close> otherwise.\<close>

definition RecordRead ::
  "int \<Rightarrow> string option \<Rightarrow> int \<Rightarrow> int \<Rightarrow> int \<Rightarrow> Collector \<Rightarrow> Collector" where
  "RecordRead latency err t1 t2 t3 c =
     (let c1 = c\<lparr>readLatencies := readLatencies c @ [latency],
                  readCount := readCount c + 1,
                  totalQueries := totalQueries c + 1\<rparr>
      in case err of
           None \<Rightarrow> c1
         | Some e \<Rightarrow>
             addError t1 t2 t3 (''read: '' @ e)
               (c1\<lparr>readErrors := readErrors c1 + 1, totalErrors := totalErrors c1 + 1\<rparr>))"

definition RecordWrite ::
  "int \<Rightarrow> string option \<Rightarrow> int \<Rightarrow> int \<Rightarrow> int \<Rightarrow> Collector \<Rightarrow> Collector" where
  "RecordWrite latency err t1 t2 t3 c =
     (let c1 = c\<lparr>writeLatencies := writeLatencies c @ [latency],
                  writeCount := writeCount c + 1,
                  totalQueries := totalQueries c + 1\<rparr>
      in case err of
           None \<Rightarrow> c1
         | Some e \<Rightarrow>
             addError t1 t2 t3 (''write: '' @ e)
               (c1\<lparr>writeErrors := writeErrors c1 + 1, totalErrors := totalErrors c1 + 1\<rparr>))"

text \<open>
  \<open>Snapshot hs interval now pool c\<close>: \<open>hs\<close> is the histogram's snapshot computation,
  \<open>now\<close> the clock reading for the timestamp and \<open>pool\<close> what the pool-stats accessor
  returns when it is called. The result is the snapshot and the collector with its window
  state swapped to zero.
\<close>

definition Snapshot ::
  "(int list \<Rightarrow> HistogramSnapshot) \<Rightarrow> int \<Rightarrow> int \<Rightarrow> PoolStats \<Rightarrow> Collector
     \<Rightarrow> MetricsSnapshot \<times> Collector" where
  "Snapshot hs interval now pool c =
     (let readHist = hs (readLatencies c);
          writeHist = hs (writeLatencies c);
          rc = readCount c; wc = writeCount c;
          re = readErrors c; we = writeErrors c;
          intervalSec = Seconds interval;
          readQPS = f64_div (float64_of_int64 rc) intervalSec;
          writeQPS = f64_div (float64_of_int64 wc) intervalSec;
          tq = totalQueries c; te = totalErrors c;
          errorRate = (if 0 < sint tq
                       then f64_div (float64_of_int64 te) (float64_of_int64 tq) else Fin 0);
          poolStats = (if hasPoolStatsFunc c then pool else zeroPoolStats)
      in (\<lparr>SnapTimestamp = UnixMilli now,
           Reads = \<lparr>QPS = readQPS, LatencyP50 = P50 readHist, LatencyP99 = P99 readHist,
                    LatencyAvg = Avg readHist, Errors = re\<rparr>,
           Writes = \<lparr>QPS = writeQPS, LatencyP50 = P50 writeHist, LatencyP99 = P99 writeHist,
                     LatencyAvg = Avg writeHist, Errors = we\<rparr>,
           Totals = \<lparr>Queries = tq, TotalErrors = te, ErrorRate = errorRate\<rparr>,
           Pool = poolStats,
           RecentErrors = recentErrors c,
           WindowReads = rc, WindowWrites = wc\<rparr>,
          c\<lparr>readLatencies := [], writeLatencies := [],
            readCount := 0, writeCount := 0, readErrors := 0, writeErrors := 0\<rparr>))"

definition Reset :: "int \<Rightarrow> Collector \<Rightarrow> Collector" where
  "Reset now c =
     c\<lparr>readLatencies := [], writeLatencies := [],
       readCount := 0, writeCount := 0, readErrors := 0, writeErrors := 0,
       totalQueries := 0, totalErrors := 0, startTime := now,
       recentErrors := [], lastErrorTime := zeroTime\<rparr>"

text \<open>
  A sequential history of calls on one collector. \<open>run\<close> applies the calls in order and
  collects the snapshots in the order they were emitted.
\<close>

datatype call =
    CallRecordRead int "string option" int int int
  | CallRecordWrite int "string option" int int int
  | CallSnapshot int int PoolStats
  | CallReset int

fun is_reset :: "call \<Rightarrow> bool" where
  "is_reset (CallReset now) = True"
| "is_reset other = False"

fun step ::
  "(int list \<Rightarrow> HistogramSnapshot) \<Rightarrow> Collector \<times> MetricsSnapshot list \<Rightarrow> call
     \<Rightarrow> Collector \<times> MetricsSnapshot list" where
  "step hs (c, out) (CallRecordRead l e t1 t2 t3) = (RecordRead l e t1 t2 t3 c, out)"
| "step hs (c, out) (CallRecordWrite l e t1 t2 t3) = (RecordWrite l e t1 t2 t3 c, out)"
| "step hs (c, out) (CallSnapshot iv now pool) =
     (let (s, c') = Snapshot hs iv now pool c in (c', out @ [s]))"
| "step hs (c, out) (CallReset now) = (Reset now c, out)"

definition run ::
  "(int list \<Rightarrow> HistogramSnapshot) \<Rightarrow> Collector \<Rightarrow> call list
     \<Rightarrow> Collector \<times> MetricsSnapshot list" where
  "run hs c calls = foldl (step hs) (c, []) calls"

definition window_total :: "MetricsSnapshot list \<Rightarrow> int64" where
  "window_total snaps = sum_list (map (\<lambda>s. WindowReads s + WindowWrites s) snaps)"

section \<open>schema: strings\<close>

text \<open>
  Go strings are byte sequences. \<open>ToLower\<close> is \<open>strings.ToLower\<close> on ASCII text, where it
  maps the letters A to Z and nothing else; the theorems about it are stated for ASCII
  column names and types, the only ones on which this definition is used.
\<close>

definition is_ascii :: "string \<Rightarrow> bool" where
  "is_ascii s = list_all (\<lambda>c. of_char c < (128::nat)) s"

definition lower_char :: "char \<Rightarrow> char" where
  "lower_char c =
     (case map_of (zip ''ABCDEFGHIJKLMNOPQRSTUVWXYZ'' ''abcdefghijklmnopqrstuvwxyz'') c of
        Some l \<Rightarrow> l
      | None \<Rightarrow> c)"

definition ToLower :: "string \<Rightarrow> string" where
  "ToLower s = map lower_char s"

fun HasPrefix :: "string \<Rightarrow> string \<Rightarrow> bool" where
  "HasPrefix s [] = True"
| "HasPrefix [] (p # ps) = False"
| "HasPrefix (c # cs) (p # ps) = (c = p \<and> HasPrefix cs ps)"

fun Contains :: "string \<Rightarrow> string \<Rightarrow> bool" where
  "Contains [] sub = (sub = [])"
| "Contains (c # cs) sub = (HasPrefix (c # cs) sub \<or> Contains cs sub)"

fun Join :: "string list \<Rightarrow> string \<Rightarrow> string" where
  "Join [] sep = []"
| "Join [x] sep = x"
| "Join (x # y # ys) sep = x @ sep @ Join (y # ys) sep"

text \<open>
  \<open>SplitN2 s\<close> is \<open>strings.SplitN(s, ".", 2)\<close> on a string that contains a dot: the text
  before the first dot and the text after it.
\<close>

definition SplitN2 :: "string \<Rightarrow> string \<times> string" where
  "SplitN2 s = (takeWhile (\<lambda>c. c \<noteq> CHR ''.'') s, drop 1 (dropWhile (\<lambda>c. c \<noteq> CHR ''.'') s))"

text \<open>The verb \<open>%d\<close> on a non-negative integer: its decimal digits.\<close>

definition digit :: "nat \<Rightarrow> char" where
  "digit d = ''0123456789'' ! d"

fun decimal :: "nat \<Rightarrow> string" where
  "decimal n = (if n < 10 then [digit n] else decimal (n div 10) @ [digit (n mod 10)])"

declare decimal.simps [simp del]

section \<open>schema: the value generator\<close>

text \<open>
  \<open>GenerateValue\<close> returns what a random generator of the faker library returns. The
  result here is the generator that is called, with its arguments: the value is a draw
  from it.
\<close>

datatype Generated =
    Email | Username | FirstName | LastName | FullName | Phone | City | Country | State
  | Zip | Address | Company | JobTitle | Sentence nat | URL | IPv4Address | IPv6Address
  | UserAgent
  | Int32Number int int | Int64Number int int | Int16Number int int | Bool
  | Float32Range int int | Float64Range int int
  | UUIDString | Date | DateFormat string | JSON | Bytes Generated | Hours int int

text \<open>The first \<open>switch\<close>: name patterns on the lower-cased column name, in source order.\<close>

definition name_pattern :: "string \<Rightarrow> Generated option" where
  "name_pattern colName =
    (if Contains colName ''email'' then Some Email
     else if Contains colName ''username'' \<or> Contains colName ''user_name'' then Some Username
     else if Contains colName ''first_name'' \<or> Contains colName ''firstname'' then Some FirstName
     else if Contains colName ''last_name'' \<or> Contains colName ''lastname'' then Some LastName
     else if Contains colName ''full_name'' \<or> Contains colName ''fullname'' \<or> colName = ''name''
       then Some FullName
     else if Contains colName ''phone'' \<or> Contains colName ''cell'' \<or> Contains colName ''mobile''
       then Some Phone
     else if Contains colName ''city'' then Some City
     else if Contains colName ''country'' then Some Country
     else if Contains colName ''state'' \<or> Contains colName ''province'' then Some State
     else if Contains colName ''zip'' \<or> Contains colName ''postal'' then Some Zip
     else if Contains colName ''address'' then Some Address
     else if Contains colName ''company'' \<or> Contains colName ''org'' then Some Company
     else if Contains colName ''job'' \<or> Contains colName ''title'' then Some JobTitle
     else if Contains colName ''bio'' \<or> Contains colName ''description'' then Some (Sentence 10)
     else if Contains colName ''url'' \<or> Contains colName ''link'' \<or> Contains colName ''website''
       then Some URL
     else if Contains colName ''ipv4'' then Some IPv4Address
     else if Contains colName ''ipv6'' then Some IPv6Address
     else if Contains colName ''user_agent'' then Some UserAgent
     else None)"

text \<open>The second \<open>switch\<close>: the lower-cased column type, in source order.\<close>

definition by_type :: "string \<Rightarrow> Generated" where
  "by_type colType =
    (if HasPrefix colType ''varchar'' \<or> HasPrefix colType ''character varying''
        \<or> colType = ''text'' \<or> HasPrefix colType ''char''
       then (if Contains colType ''('' then Sentence 3 else Sentence 5)
     else if colType = ''integer'' \<or> colType = ''int'' \<or> colType = ''int4''
       then Int32Number 0 1000000
     else if colType = ''bigint'' \<or> colType = ''int8'' then Int64Number 0 1000000000
     else if colType = ''smallint'' \<or> colType = ''int2'' then Int16Number 0 32000
     else if colType = ''boolean'' \<or> colType = ''bool'' then Bool
     else if colType = ''real'' \<or> colType = ''float4'' then Float32Range 0 1000
     else if colType = ''double precision'' \<or> colType = ''float8'' then Float64Range 0 10000
     else if HasPrefix colType ''numeric'' \<or> HasPrefix colType ''decimal''
       then Float64Range 0 100000
     else if colType = ''uuid'' then UUIDString
     else if colType = ''timestamp'' \<or> colType = ''timestamp without time zone'' then Date
     else if colType = ''timestamptz'' \<or> colType = ''timestamp with time zone'' then Date
     else if colType = ''date'' then DateFormat ''2006-01-02''
     else if colType = ''time'' \<or> colType = ''time without time zone''
       then DateFormat ''15:04:05''
     else if colType = ''timetz'' \<or> colType = ''time with time zone''
       then DateFormat ''15:04:05-07:00''
     else if colType = ''jsonb'' \<or> colType = ''json'' then JSON
     else if colType = ''bytea'' then Bytes (Sentence 5)
     else if HasPrefix colType ''interval'' then Hours 1 24
     else Sentence 5)"

definition GenerateValue :: "string \<Rightarrow> string \<Rightarrow> Generated" where
  "GenerateValue colType colName =
     (case name_pattern (ToLower colName) of
        Some g \<Rightarrow> g
      | None \<Rightarrow> by_type (ToLower colType))"

section \<open>schema: the dynamic scenario\<close>

record ColumnInfo =
  Name :: string
  DataType :: string
  IsNullable :: bool
  HasDefault :: bool
  IsSerial :: bool

record CustomScenario =
  tableName :: string
  schemaName :: string
  initialized :: bool
  columns :: "ColumnInfo list"
  insertColumns :: "ColumnInfo list"
  primaryKey :: string
  primaryKeyType :: string
  insertQuery :: string
  selectQuery :: string
  maxID :: int
  ids :: "string list"

definition NewCustomScenario :: "string \<Rightarrow> CustomScenario" where
  "NewCustomScenario name =
     (let (schemaName', tblName) =
            (if name \<noteq> [] \<and> Contains name ''.'' then SplitN2 name else (''public'', name))
      in \<lparr>tableName = tblName, schemaName = schemaName', initialized = False,
          columns = [], insertColumns = [], primaryKey = [], primaryKeyType = [],
          insertQuery = [], selectQuery = [], maxID = 100000, ids = []\<rparr>)"

text \<open>
  What the database connection answers. A failed call is \<open>Inl\<close> with the driver's message.
  The catalog queries are fixed texts and are identified by their parameters; the queries
  that the scenario builds with \<open>Sprintf\<close> are identified by their text.
\<close>

datatype IdArg = IdString string | IdInt int

record Conn =
  discoverTable :: "string + string \<times> string"
  columnRows :: "string \<Rightarrow> string \<Rightarrow> string + (string + ColumnInfo) list"
  primaryKeyRow :: "string \<Rightarrow> string + string \<times> string"
  maxRow :: "string \<Rightarrow> string + int option"
  idRows :: "string \<Rightarrow> string + (string + string) list"
  selectRow :: "string \<Rightarrow> IdArg \<Rightarrow> string option"
  insertRow :: "string \<Rightarrow> Generated list \<Rightarrow> string + string"

definition discover :: "Conn \<Rightarrow> CustomScenario \<Rightarrow> string option \<times> CustomScenario" where
  "discover conn s =
     (if tableName s = [] then
        (case discoverTable conn of
           Inl e \<Rightarrow> (Some (''failed to auto-discover table: '' @ e), s)
         | Inr (sch, tbl) \<Rightarrow> (None, s\<lparr>schemaName := sch, tableName := tbl\<rparr>))
      else (None, s))"

fun loadColumns ::
  "(string + ColumnInfo) list \<Rightarrow> CustomScenario \<Rightarrow> string option \<times> CustomScenario" where
  "loadColumns [] s = (None, s)"
| "loadColumns (Inl e # rows) s = (Some (''failed to scan column info: '' @ e), s)"
| "loadColumns (Inr col # rows) s =
     loadColumns rows
       (s\<lparr>columns := columns s @ [col],
          insertColumns := (if \<not> IsSerial col then insertColumns s @ [col] else insertColumns s)\<rparr>)"

text \<open>Called once the column list is known to be non-empty.\<close>

definition resolvePrimaryKey :: "Conn \<Rightarrow> CustomScenario \<Rightarrow> CustomScenario" where
  "resolvePrimaryKey conn s =
     (case primaryKeyRow conn (schemaName s @ ''.'' @ tableName s) of
        Inl e \<Rightarrow> s\<lparr>primaryKey := Name (columns s ! 0), primaryKeyType := DataType (columns s ! 0)\<rparr>
      | Inr (pk, pkType) \<Rightarrow> s\<lparr>primaryKey := pk, primaryKeyType := pkType\<rparr>)"

definition isIntegerPK :: "string \<Rightarrow> bool" where
  "isIntegerPK pkType =
     (let lowerType = ToLower pkType
      in (Contains lowerType ''int'' \<or> Contains lowerType ''serial'') \<and> \<not> Contains lowerType ''uuid'')"

fun scannedIds :: "(string + string) list \<Rightarrow> string list" where
  "scannedIds [] = []"
| "scannedIds (Inl e # rows) = scannedIds rows"
| "scannedIds (Inr i # rows) = i # scannedIds rows"

definition loadIdSource :: "Conn \<Rightarrow> CustomScenario \<Rightarrow> CustomScenario" where
  "loadIdSource conn s =
     (if isIntegerPK (primaryKeyType s) then
        (let s1 = (case maxRow conn (''SELECT MAX('' @ primaryKey s @ '') FROM '' @ schemaName s
                                      @ ''.'' @ tableName s) of
                     Inr (Some m) \<Rightarrow> s\<lparr>maxID := m\<rparr>
                   | Inr None \<Rightarrow> s
                   | Inl e \<Rightarrow> s)
         in if maxID s1 < 1 then s1\<lparr>maxID := 1\<rparr> else s1)
      else
        (case idRows conn (''SELECT '' @ primaryKey s @ ''::text FROM '' @ schemaName s
                            @ ''.'' @ tableName s @ '' LIMIT 10000'') of
           Inr rows \<Rightarrow> s\<lparr>ids := ids s @ scannedIds rows\<rparr>
         | Inl e \<Rightarrow> s))"

definition placeholders :: "nat \<Rightarrow> string list" where
  "placeholders k = map (\<lambda>i. ''$'' @ decimal (i + 1)) [0..<k]"

definition buildInsert :: "CustomScenario \<Rightarrow> CustomScenario" where
  "buildInsert s =
     (if length (insertColumns s) > 0 then
        s\<lparr>insertQuery :=
            ''INSERT INTO '' @ schemaName s @ ''.'' @ tableName s
            @ '' ('' @ Join (map Name (insertColumns s)) '', ''
            @ '') VALUES ('' @ Join (placeholders (length (insertColumns s))) '', ''
            @ '') RETURNING '' @ primaryKey s @ ''::text''\<rparr>
      else s)"

definition buildSelect :: "CustomScenario \<Rightarrow> CustomScenario" where
  "buildSelect s =
     s\<lparr>selectQuery :=
         ''SELECT '' @ Join (map Name (columns s)) '', ''
         @ '' FROM '' @ schemaName s @ ''.'' @ tableName s
         @ '' WHERE '' @ primaryKey s @ '' = $1''\<rparr>"

definition Initialize :: "Conn \<Rightarrow> CustomScenario \<Rightarrow> string option \<times> CustomScenario" where
  "Initialize conn s =
     (if initialized s then (None, s)
      else
        case discover conn s of
          (Some e, s1) \<Rightarrow> (Some e, s1)
        | (None, s1) \<Rightarrow>
            (case columnRows conn (schemaName s1) (tableName s1) of
               Inl e \<Rightarrow> (Some (''failed to query columns: '' @ e), s1)
             | Inr rows \<Rightarrow>
                 (case loadColumns rows (s1\<lparr>columns := [], insertColumns := []\<rparr>) of
                    (Some e, s2) \<Rightarrow> (Some e, s2)
                  | (None, s2) \<Rightarrow>
                      if length (columns s2) = 0
                      then (Some (''table '' @ schemaName s2 @ ''.'' @ tableName s2
                                  @ '' not found or has no columns''), s2)
                      else
                        (None, (buildSelect (buildInsert (loadIdSource conn
                                  (resolvePrimaryKey conn s2))))\<lparr>initialized := True\<rparr>))))"

text \<open>
  \<open>rnd\<close> stands for the random source: \<open>rand.Intn n\<close> is \<open>rnd mod n\<close> and
  \<open>rand.Int63n n\<close> is \<open>rnd mod n\<close> as well. \<open>ExecuteRead\<close> returns its error, the
  row queries it sent to the connection and the scenario.
\<close>

definition ensureInitialized :: "Conn \<Rightarrow> CustomScenario \<Rightarrow> string option \<times> CustomScenario" where
  "ensureInitialized conn s = (if \<not> initialized s then Initialize conn s else (None, s))"

definition pickId :: "nat \<Rightarrow> CustomScenario \<Rightarrow> IdArg option" where
  "pickId rnd s =
     (let maxID' = maxID s; cachedIDs = length (ids s)
      in if cachedIDs > 0 then
           (if length (ids s) > 0 then Some (IdString (ids s ! (rnd mod length (ids s))))
            else None)
         else if maxID' > 0 then Some (IdInt (int (rnd mod nat maxID') + 1))
         else None)"

definition ExecuteRead ::
  "Conn \<Rightarrow> nat \<Rightarrow> CustomScenario \<Rightarrow> string option \<times> (string \<times> IdArg) list \<times> CustomScenario" where
  "ExecuteRead conn rnd s =
     (case ensureInitialized conn s of
        (Some e, s1) \<Rightarrow> (Some e, [], s1)
      | (None, s1) \<Rightarrow>
          (let query = selectQuery s1
           in if query = [] then (Some ''custom scenario not initialized'', [], s1)
              else
                case pickId rnd s1 of
                  None \<Rightarrow> (None, [], s1)
                | Some i \<Rightarrow> (selectRow conn query i, [(query, i)], s1)))"

definition cacheNewID :: "nat \<Rightarrow> string \<Rightarrow> CustomScenario \<Rightarrow> CustomScenario" where
  "cacheNewID rnd newID s =
     (if length (ids s) > 0 \<or> maxID s = 0 then
        (if length (ids s) < 10000 then s\<lparr>ids := ids s @ [newID]\<rparr>
         else s\<lparr>ids := (ids s)[rnd mod length (ids s) := newID]\<rparr>)
      else s)"

definition ExecuteWrite :: "Conn \<Rightarrow> nat \<Rightarrow> CustomScenario \<Rightarrow> string option \<times> CustomScenario" where
  "ExecuteWrite conn rnd s =
     (case ensureInitialized conn s of
        (Some e, s1) \<Rightarrow> (Some e, s1)
      | (None, s1) \<Rightarrow>
          (let query = insertQuery s1; cols = insertColumns s1
           in if query = [] \<or> length cols = 0
              then (Some ''custom scenario not initialized or no insertable columns'', s1)
              else
                let args = map (\<lambda>col. GenerateValue (DataType col) (Name col)) cols
                in case insertRow conn query args of
                     Inl e \<Rightarrow> (Some e, s1)
                   | Inr newID \<Rightarrow>
                       (None, if newID \<noteq> [] then cacheNewID rnd newID s1 else s1)))"

section \<open>schema: the registry\<close>

text \<open>
  A scenario reference. The built-in scenarios are the four objects the registry holds;
  a dynamic scenario is carried with its state.
\<close>

datatype Scenario = SimpleScenario | JSONBScenario | WideScenario | FKScenario
  | Custom CustomScenario

fun ScenarioName :: "Scenario \<Rightarrow> string" where
  "ScenarioName SimpleScenario = ''simple''"
| "ScenarioName JSONBScenario = ''jsonb''"
| "ScenarioName WideScenario = ''wide''"
| "ScenarioName FKScenario = ''fk''"
| "ScenarioName (Custom s) = (if tableName s = [] then ''custom:auto'' else ''custom:'' @ tableName s)"

type_synonym Registry = "string \<rightharpoonup> Scenario"

definition Register :: "Registry \<Rightarrow> Scenario \<Rightarrow> Registry" where
  "Register r s = r(ScenarioName s \<mapsto> s)"

definition NewRegistry :: Registry where
  "NewRegistry =
     Register (Register (Register (Register Map.empty SimpleScenario) JSONBScenario)
       WideScenario) FKScenario"

text \<open>\<open>Get\<close> returns the scenario and \<open>ok\<close>; \<open>None\<close> is \<open>(nil, false)\<close>.\<close>

definition Get :: "Registry \<Rightarrow> string \<Rightarrow> Scenario option" where
  "Get r name = r name"

definition CreateCustomScenario :: "Registry \<Rightarrow> string \<Rightarrow> CustomScenario" where
  "CreateCustomScenario r name = NewCustomScenario name"

section \<open>load: the controller\<close>

text \<open>
  Go's \<open>int\<close> is a 64-bit signed integer here: arithmetic wraps (\<open>wrap64\<close>) and division
  truncates towards zero (\<open>quot\<close>).
\<close>

definition wrap64 :: "int \<Rightarrow> int" where
  "wrap64 x = (x + 2 ^ 63) mod 2 ^ 64 - 2 ^ 63"

definition quot :: "int \<Rightarrow> int \<Rightarrow> int" where
  "quot a b = sgn a * sgn b * (\<bar>a\<bar> div \<bar>b\<bar>)"

record Config =
  Connections :: int
  ReadQPS :: int
  WriteQPS :: int
  ChurnRate :: int
  Scenario :: string
  CustomTable :: string

text \<open>Of a \<open>rate.Limiter\<close>, the two settings the controller writes.\<close>

record Limiter =
  limit :: float64
  burst :: int

definition NewLimiter :: "float64 \<Rightarrow> int \<Rightarrow> Limiter" where
  "NewLimiter r b = \<lparr>limit = r, burst = b\<rparr>"

definition SetLimit :: "float64 \<Rightarrow> Limiter \<Rightarrow> Limiter" where
  "SetLimit r l = l\<lparr>limit := r\<rparr>"

definition SetBurst :: "int \<Rightarrow> Limiter \<Rightarrow> Limiter" where
  "SetBurst b l = l\<lparr>burst := b\<rparr>"

text \<open>
  A worker goroutine, with the scenario reference and the per-connection churn rate it
  was created with. \<open>workers\<close> is the set of live goroutines; \<open>lifecycle\<close> records, in
  order, each \<open>Stop\<close> that cancelled the fleet and each \<open>Start\<close> that spawned one, with
  the number of readers and writers spawned.
\<close>

datatype Worker =
    ReadWorker "Scenario option" float64
  | WriteWorker "Scenario option" float64

datatype Lifecycle = Stopped | Started nat nat

record Controller =
  running :: bool
  config :: Config
  readLimiter :: Limiter
  writeLimiter :: Limiter
  registry :: Registry
  scenario :: "Scenario option"
  workers :: "Worker list"
  lifecycle :: "Lifecycle list"

definition zeroConfig :: Config where
  "zeroConfig = \<lparr>Connections = 0, ReadQPS = 0, WriteQPS = 0, ChurnRate = 0,
                 Scenario = [], CustomTable = []\<rparr>"

definition NewController :: Controller where
  "NewController =
     (let registry' = NewRegistry; defaultScenario = Get registry' ''simple''
      in \<lparr>running = False, config = zeroConfig,
          readLimiter = NewLimiter (float64_of_int 100) 100,
          writeLimiter = NewLimiter (float64_of_int 10) 10,
          registry = registry', scenario = defaultScenario,
          workers = [], lifecycle = []\<rparr>)"

definition SetScenario :: "string \<Rightarrow> string \<Rightarrow> Controller \<Rightarrow> Controller" where
  "SetScenario name customTable c =
     (let newScenario =
            (if name = ''custom'' then Some (Custom (CreateCustomScenario (registry c) customTable))
             else case Get (registry c) name of
                    Some s \<Rightarrow> Some s
                  | None \<Rightarrow> Get (registry c) ''simple'')
      in c\<lparr>scenario := newScenario,
           config := (config c)\<lparr>Scenario := name, CustomTable := customTable\<rparr>\<rparr>)"

definition churnPerConnection :: "Config \<Rightarrow> float64" where
  "churnPerConnection cfg =
     (if Connections cfg > 0 \<and> ChurnRate cfg > 0
      then f64_div (float64_of_int (ChurnRate cfg)) (float64_of_int (Connections cfg))
      else Fin 0)"

definition numReaders :: "Config \<Rightarrow> int" where
  "numReaders cfg =
     (let n = quot (wrap64 (Connections cfg * 80)) 100
      in if n < 1 \<and> Connections cfg > 0 then 1 else n)"

definition numWriters :: "Config \<Rightarrow> int" where
  "numWriters cfg =
     (let n = wrap64 (Connections cfg - numReaders cfg)
      in if n < 0 then 0 else n)"

text \<open>A loop \<open>for i := 0; i < n; i++\<close> runs \<open>nat n\<close> times.\<close>

definition Start :: "Controller \<Rightarrow> Controller" where
  "Start c =
     (if running c then c
      else
        let churnRate = churnPerConnection (config c);
            nr = numReaders (config c);
            nw = numWriters (config c);
            scenario' = scenario c
        in c\<lparr>running := True,
             workers := workers c @ replicate (nat nr) (ReadWorker scenario' churnRate)
                        @ replicate (nat nw) (WriteWorker scenario' churnRate),
             lifecycle := lifecycle c @ [Started (nat nr) (nat nw)]\<rparr>)"

definition Stop :: "Controller \<Rightarrow> Controller" where
  "Stop c =
     (if \<not> running c then c
      else c\<lparr>running := False, workers := [], lifecycle := lifecycle c @ [Stopped]\<rparr>)"

definition retune :: "Config \<Rightarrow> Controller \<Rightarrow> Controller" where
  "retune cfg c =
     c\<lparr>config := cfg,
       readLimiter := SetBurst (max (ReadQPS cfg) 1) (SetLimit (float64_of_int (ReadQPS cfg)) (readLimiter c)),
       writeLimiter := SetBurst (max (WriteQPS cfg) 1) (SetLimit (float64_of_int (WriteQPS cfg)) (writeLimiter c))\<rparr>"

definition scenarioChanged :: "Config \<Rightarrow> Config \<Rightarrow> bool" where
  "scenarioChanged oldConfig cfg =
     (Scenario oldConfig \<noteq> Scenario cfg \<or> CustomTable oldConfig \<noteq> CustomTable cfg)"

definition swapScenario :: "Config \<Rightarrow> Controller \<Rightarrow> Controller" where
  "swapScenario cfg c =
     (if Scenario cfg = ''custom''
      then c\<lparr>scenario := Some (Custom (CreateCustomScenario (registry c) (CustomTable cfg)))\<rparr>
      else if Scenario cfg \<noteq> [] then
        (case Get (registry c) (Scenario cfg) of
           Some s \<Rightarrow> c\<lparr>scenario := Some s\<rparr>
         | None \<Rightarrow> c)
      else c)"

definition needsRestart :: "Controller \<Rightarrow> Config \<Rightarrow> bool" where
  "needsRestart c cfg =
     (running c \<and> (Connections (config c) \<noteq> Connections cfg
                   \<or> ChurnRate (config c) \<noteq> ChurnRate cfg
                   \<or> scenarioChanged (config c) cfg))"

definition UpdateConfig :: "Config \<Rightarrow> Controller \<Rightarrow> Controller" where
  "UpdateConfig cfg c =
     (let oldConfig = config c;
          c1 = retune cfg c;
          c2 = (if scenarioChanged oldConfig cfg then swapScenario cfg c1 else c1);
          restart = needsRestart c cfg
      in if restart then Start (Stop c2) else c2)"

definition SetConfig :: "Config \<Rightarrow> Controller \<Rightarrow> Controller" where
  "SetConfig cfg c = retune cfg c"

section \<open>Example databases\<close>

text \<open>
  \<open>test.widgets(id serial primary key, label text)\<close> holding five rows; the next insert
  returns the id 6.
\<close>

definition widgets_conn :: Conn where
  "widgets_conn =
     \<lparr>discoverTable = Inl ''no rows in result set'',
      columnRows = (\<lambda>sch tbl.
        if sch = ''test'' \<and> tbl = ''widgets''
        then Inr [Inr \<lparr>Name = ''id'', DataType = ''integer'', IsNullable = False,
                       HasDefault = True, IsSerial = True\<rparr>,
                  Inr \<lparr>Name = ''label'', DataType = ''text'', IsNullable = True,
                       HasDefault = False, IsSerial = False\<rparr>]
        else Inr []),
      primaryKeyRow = (\<lambda>rel.
        if rel = ''test.widgets'' then Inr (''id'', ''integer'')
        else Inl ''relation does not exist''),
      maxRow = (\<lambda>q.
        if q = ''SELECT MAX(id) FROM test.widgets'' then Inr (Some 5)
        else Inl ''relation does not exist''),
      idRows = (\<lambda>q. Inl ''relation does not exist''),
      selectRow = (\<lambda>q i. None),
      insertRow = (\<lambda>q args. Inr ''6'')\<rparr>"

text \<open>
  \<open>public.items(id uuid primary key default uuid_generate_v4(), label text)\<close>, empty;
  an insert succeeds and returns the new row's uuid.
\<close>

definition items_conn :: Conn where
  "items_conn =
     \<lparr>discoverTable = Inr (''public'', ''items''),
      columnRows = (\<lambda>sch tbl.
        if sch = ''public'' \<and> tbl = ''items''
        then Inr [Inr \<lparr>Name = ''id'', DataType = ''uuid'', IsNullable = False,
                       HasDefault = True, IsSerial = False\<rparr>,
                  Inr \<lparr>Name = ''label'', DataType = ''text'', IsNullable = True,
                       HasDefault = False, IsSerial = False\<rparr>]
        else Inr []),
      primaryKeyRow = (\<lambda>rel.
        if rel = ''public.items'' then Inr (''id'', ''uuid'')
        else Inl ''relation does not exist''),
      maxRow = (\<lambda>q. Inl ''function max(uuid) does not exist''),
      idRows = (\<lambda>q.
        if q = ''SELECT id::text FROM public.items LIMIT 10000'' then Inr []
        else Inl ''relation does not exist''),
      selectRow = (\<lambda>q i. Some ''no rows in result set''),
      insertRow = (\<lambda>q args. Inr ''3f2c9a4e-8b1d-4c6f-9e0a-5d7b1c2e4f60'')\<rparr>"

text \<open>\<open>public.counters(id bigserial primary key)\<close>, empty: its only column is serial.\<close>

definition counters_conn :: Conn where
  "counters_conn =
     \<lparr>discoverTable = Inr (''public'', ''counters''),
      columnRows = (\<lambda>sch tbl.
        if sch = ''public'' \<and> tbl = ''counters''
        then Inr [Inr \<lparr>Name = ''id'', DataType = ''bigint'', IsNullable = False,
                       HasDefault = True, IsSerial = True\<rparr>]
        else Inr []),
      primaryKeyRow = (\<lambda>rel.
        if rel = ''public.counters'' then Inr (''id'', ''bigint'')
        else Inl ''relation does not exist''),
      maxRow = (\<lambda>q.
        if q = ''SELECT MAX(id) FROM public.counters'' then Inr None
        else Inl ''relation does not exist''),
      idRows = (\<lambda>q. Inl ''relation does not exist''),
      selectRow = (\<lambda>q i. Some ''no rows in result set''),
      insertRow = (\<lambda>q args. Inl ''syntax error'')\<rparr>"

text \<open>A histogram snapshot computation, for the examples: all statistics zero.\<close>

definition flat_hist :: "int list \<Rightarrow> HistogramSnapshot" where
  "flat_hist ls = \<lparr>P50 = Fin 0, P99 = Fin 0, Avg = Fin 0\<rparr>"

definition example_calls :: "call list" where
  "example_calls =
     [CallRecordRead 5000 None 1 2 3,
      CallRecordWrite 7000 (Some ''connection refused'') 4 5 6,
      CallSnapshot 1000000000 9 zeroPoolStats,
      CallRecordRead 5000 (Some ''timeout'') 10 11 12,
      CallSnapshot 1000000000 1000000009 zeroPoolStats]"

section \<open>Invariants of the models\<close>

text \<open>
  The totals account for every window: the total is the sum of the windows already
  emitted plus the two open window counts, and the last emitted snapshot reported the sum
  of the emitted windows.
\<close>

definition accounted :: "Collector \<times> MetricsSnapshot list \<Rightarrow> bool" where
  "accounted st =
     (totalQueries (fst st) = window_total (snd st) + readCount (fst st) + writeCount (fst st)
      \<and> (snd st = [] \<or> Queries (Totals (last (snd st))) = window_total (snd st)))"

text \<open>The sum of the window counts read as signed integers.\<close>

definition window_total_int :: "MetricsSnapshot list \<Rightarrow> int" where
  "window_total_int snaps
     = sum_list (map (\<lambda>s. sint (WindowReads s) + sint (WindowWrites s)) snaps)"

text \<open>
  The same account on the signed values of the counters, for a history of \<open>n\<close> calls: no
  counter is negative and the total is at most \<open>n\<close>, so that below \<open>2 ^ 63\<close> calls no
  counter has wrapped.
\<close>

definition accounted_int :: "nat \<Rightarrow> Collector \<times> MetricsSnapshot list \<Rightarrow> bool" where
  "accounted_int n st =
     (0 \<le> sint (readCount (fst st)) \<and> 0 \<le> sint (writeCount (fst st))
      \<and> 0 \<le> window_total_int (snd st)
      \<and> sint (totalQueries (fst st))
          = window_total_int (snd st) + sint (readCount (fst st)) + sint (writeCount (fst st))
      \<and> sint (totalQueries (fst st)) \<le> int n
      \<and> (snd st = [] \<or> sint (Queries (Totals (last (snd st)))) = window_total_int (snd st)))"



text \<open>The locked part of \<open>UpdateConfig\<close>: the state before the restart decision is acted on.\<close>

definition shaped :: "Config \<Rightarrow> Controller \<Rightarrow> Controller" where
  "shaped cfg c =
     (if scenarioChanged (config c) cfg then swapScenario cfg (retune cfg c) else retune cfg c)"

text \<open>
  The account that the calls themselves give, independently of the collector: a record
  is counted once in the open window of its kind and once in the total, a snapshot emits
  the two open windows with the total and opens new ones, a reset zeroes all three.
  \<open>windows_of r w t calls\<close> lists what the snapshots among \<open>calls\<close> must report when
  the open windows hold \<open>r\<close> reads and \<open>w\<close> writes and the total is \<open>t\<close>.
\<close>

fun is_read :: "call \<Rightarrow> bool" where
  "is_read (CallRecordRead l e t1 t2 t3) = True"
| "is_read other = False"

fun is_write :: "call \<Rightarrow> bool" where
  "is_write (CallRecordWrite l e t1 t2 t3) = True"
| "is_write other = False"

fun is_snapshot :: "call \<Rightarrow> bool" where
  "is_snapshot (CallSnapshot iv now pool) = True"
| "is_snapshot other = False"

fun windows_of :: "nat \<Rightarrow> nat \<Rightarrow> nat \<Rightarrow> call list \<Rightarrow> (nat \<times> nat \<times> nat) list" where
  "windows_of r w t [] = []"
| "windows_of r w t (CallRecordRead l e t1 t2 t3 # calls) = windows_of (Suc r) w (Suc t) calls"
| "windows_of r w t (CallRecordWrite l e t1 t2 t3 # calls) = windows_of r (Suc w) (Suc t) calls"
| "windows_of r w t (CallSnapshot iv now pool # calls) = (r, w, t) # windows_of 0 0 t calls"
| "windows_of r w t (CallReset now # calls) = windows_of 0 0 0 calls"

definition window_view :: "MetricsSnapshot \<Rightarrow> int64 \<times> int64 \<times> int64" where
  "window_view s = (WindowReads s, WindowWrites s, Queries (Totals s))"

definition as_counters :: "nat \<times> nat \<times> nat \<Rightarrow> int64 \<times> int64 \<times> int64" where
  "as_counters x = (of_nat (fst x), of_nat (fst (snd x)), of_nat (snd (snd x)))"

text \<open>The same two views read as signed integers.\<close>

definition signed_view :: "MetricsSnapshot \<Rightarrow> int \<times> int \<times> int" where
  "signed_view s = (sint (WindowReads s), sint (WindowWrites s), sint (Queries (Totals s)))"

definition as_ints :: "nat \<times> nat \<times> nat \<Rightarrow> int \<times> int \<times> int" where
  "as_ints x = (int (fst x), int (fst (snd x)), int (snd (snd x)))"

text \<open>
  Two connections answer alike on the table \<open>sch.tbl\<close>: the catalog query for the columns
  with the parameters \<open>sch\<close> and \<open>tbl\<close>, the primary-key query with the parameter
  \<open>sch.tbl\<close>, and the \<open>MAX\<close> query and the id-seed query written on \<open>sch.tbl\<close>, whichever
  the key column.
\<close>

definition same_introspection :: "Conn \<Rightarrow> Conn \<Rightarrow> string \<Rightarrow> string \<Rightarrow> bool" where
  "same_introspection conn conn' sch tbl =
     (columnRows conn' sch tbl = columnRows conn sch tbl
      \<and> primaryKeyRow conn' (sch @ ''.'' @ tbl) = primaryKeyRow conn (sch @ ''.'' @ tbl)
      \<and> (\<forall>pk. maxRow conn' (''SELECT MAX('' @ pk @ '') FROM '' @ sch @ ''.'' @ tbl)
                = maxRow conn (''SELECT MAX('' @ pk @ '') FROM '' @ sch @ ''.'' @ tbl))
      \<and> (\<forall>pk. idRows conn' (''SELECT '' @ pk @ ''::text FROM '' @ sch @ ''.'' @ tbl
                               @ '' LIMIT 10000'')
                = idRows conn (''SELECT '' @ pk @ ''::text FROM '' @ sch @ ''.'' @ tbl
                               @ '' LIMIT 10000'')))"

text \<open>
  A database that answers as \<open>items_conn\<close> on \<open>public.items\<close> and has nothing else: no
  table to discover, and every other schema or table unknown.
\<close>

definition items_only_conn :: Conn where
  "items_only_conn =
     items_conn\<lparr>discoverTable := Inl ''no rows in result set'',
       columnRows := (\<lambda>sch tbl.
         if sch = ''public'' \<and> tbl = ''items'' then columnRows items_conn sch tbl
         else Inl ''permission denied''),
       primaryKeyRow := (\<lambda>rel.
         if rel = ''public.items'' then primaryKeyRow items_conn rel
         else Inr (''other_id'', ''integer''))\<rparr>"

section \<open>Example controllers\<close>

text \<open>
  The bootstrap configuration: 10 connections, 100 reads and 10 writes per second, no
  churn, on the simple scenario; \<open>bootstrap\<close> is the controller that the program's entry
  point builds from it, and \<open>jsonb_controller\<close> the same on the jsonb scenario.
\<close>

definition bootstrap_cfg :: Config where
  "bootstrap_cfg = \<lparr>Connections = 10, ReadQPS = 100, WriteQPS = 10, ChurnRate = 0,
                     Scenario = ''simple'', CustomTable = []\<rparr>"

definition bootstrap :: Controller where
  "bootstrap = SetConfig bootstrap_cfg (SetScenario ''simple'' [] NewController)"

definition jsonb_controller :: Controller where
  "jsonb_controller =
     SetConfig (bootstrap_cfg\<lparr>Scenario := ''jsonb''\<rparr>) (SetScenario ''jsonb'' [] NewController)"

section \<open>Properties of the collector\<close>

lemma window_total_snoc:
  "window_total (out @ [s]) = window_total out + (WindowReads s + WindowWrites s)"
  by (simp add: window_total_def)

lemma addError_counters:
  "readCount (addError t1 t2 t3 m c) = readCount c"
  "writeCount (addError t1 t2 t3 m c) = writeCount c"
  "totalQueries (addError t1 t2 t3 m c) = totalQueries c"
  "readErrors (addError t1 t2 t3 m c) = readErrors c"
  "writeErrors (addError t1 t2 t3 m c) = writeErrors c"
  "totalErrors (addError t1 t2 t3 m c) = totalErrors c"
  by (simp_all add: addError_def Let_def)

lemma RecordRead_counters:
  "readCount (RecordRead l e t1 t2 t3 c) = readCount c + 1"
  "writeCount (RecordRead l e t1 t2 t3 c) = writeCount c"
  "totalQueries (RecordRead l e t1 t2 t3 c) = totalQueries c + 1"
  by (simp_all add: RecordRead_def Let_def addError_counters split: option.split)

lemma RecordWrite_counters:
  "readCount (RecordWrite l e t1 t2 t3 c) = readCount c"
  "writeCount (RecordWrite l e t1 t2 t3 c) = writeCount c + 1"
  "totalQueries (RecordWrite l e t1 t2 t3 c) = totalQueries c + 1"
  by (simp_all add: RecordWrite_def Let_def addError_counters split: option.split)

lemma accounted_step:
  assumes "accounted st" and "\<not> is_reset ev"
  shows "accounted (step hs st ev)"
proof (cases st)
  case (Pair c out)
  show ?thesis
  proof (cases ev)
    case (CallRecordRead l e t1 t2 t3)
    with assms Pair show ?thesis
      by (simp add: accounted_def RecordRead_counters)
  next
    case (CallRecordWrite l e t1 t2 t3)
    with assms Pair show ?thesis
      by (simp add: accounted_def RecordWrite_counters)
  next
    case (CallSnapshot iv now pool)
    with assms Pair show ?thesis
      by (simp add: accounted_def Snapshot_def Let_def window_total_snoc add.assoc)
  next
    case (CallReset now)
    with assms show ?thesis by simp
  qed
qed

lemma accounted_run:
  "accounted (c, []) \<Longrightarrow> list_all (\<lambda>ev. \<not> is_reset ev) calls \<Longrightarrow> accounted (run hs c calls)"
  unfolding run_def
proof (induction calls rule: rev_induct)
  case Nil
  then show ?case by simp
next
  case (snoc ev calls)
  then show ?case by (simp add: accounted_step)
qed

lemma sint_succ:
  fixes x :: int64
  assumes "0 \<le> sint x" "sint x < 2 ^ 63 - 1"
  shows "sint (x + 1) = sint x + 1"
proof -
  have "sint (x + 1) = signed_take_bit 63 (sint x + sint (1::int64))"
    by (simp add: sint_word_ariths)
  also have "\<dots> = sint x + 1"
    using assms by (simp add: signed_take_bit_int_eq_self)
  finally show ?thesis .
qed

lemma window_total_int_snoc:
  "window_total_int (out @ [s])
     = window_total_int out + (sint (WindowReads s) + sint (WindowWrites s))"
  by (simp add: window_total_int_def)

lemma accounted_int_step:
  assumes "accounted_int n st" and "\<not> is_reset ev" and "Suc n < 2 ^ 63"
  shows "accounted_int (Suc n) (step hs st ev)"
proof (cases st)
  case (Pair c out)
  from assms(1) Pair have inv:
    "0 \<le> sint (readCount c)" "0 \<le> sint (writeCount c)" "0 \<le> window_total_int out"
    "sint (totalQueries c) = window_total_int out + sint (readCount c) + sint (writeCount c)"
    "sint (totalQueries c) \<le> int n"
    "out = [] \<or> sint (Queries (Totals (last out))) = window_total_int out"
    by (simp_all add: accounted_int_def)
  from assms(3) have n: "int n < 2 ^ 63 - 1" by simp
  from inv n have bounds: "sint (readCount c) < 2 ^ 63 - 1" "sint (writeCount c) < 2 ^ 63 - 1"
    "sint (totalQueries c) < 2 ^ 63 - 1" "0 \<le> sint (totalQueries c)"
    by linarith+
  have r1: "sint (readCount c + 1) = sint (readCount c) + 1"
    using inv(1) bounds(1) by (rule sint_succ)
  have w1: "sint (writeCount c + 1) = sint (writeCount c) + 1"
    using inv(2) bounds(2) by (rule sint_succ)
  have t1: "sint (totalQueries c + 1) = sint (totalQueries c) + 1"
    using bounds(4) bounds(3) by (rule sint_succ)
  show ?thesis
  proof (cases ev)
    case (CallRecordRead l e t1 t2 t3)
    with Pair inv r1 t1 show ?thesis
      by (simp add: accounted_int_def RecordRead_counters)
  next
    case (CallRecordWrite l e t1 t2 t3)
    with Pair inv w1 t1 show ?thesis
      by (simp add: accounted_int_def RecordWrite_counters)
  next
    case (CallSnapshot iv now pool)
    with Pair inv show ?thesis
      by (simp add: accounted_int_def Snapshot_def Let_def window_total_int_snoc)
  next
    case (CallReset now)
    with assms show ?thesis by simp
  qed
qed

lemma accounted_int_run:
  "accounted_int 0 (c, []) \<Longrightarrow> list_all (\<lambda>ev. \<not> is_reset ev) calls \<Longrightarrow>
   length calls < 2 ^ 63 \<Longrightarrow> accounted_int (length calls) (run hs c calls)"
  unfolding run_def
proof (induction calls rule: rev_induct)
  case Nil
  then show ?case by simp
next
  case (snoc ev calls)
  then have "accounted_int (length calls) (foldl (step hs) (c, []) calls)" by simp
  moreover from snoc.prems have "\<not> is_reset ev" "Suc (length calls) < 2 ^ 63" by simp_all
  ultimately show ?case by (simp add: accounted_int_step)
qed

lemma example_run:
  "snd (run flat_hist (NewCollector True 0) example_calls) =
     [fst (Snapshot flat_hist 1000000000 9 zeroPoolStats
        (RecordWrite 7000 (Some ''connection refused'') 4 5 6
          (RecordRead 5000 None 1 2 3 (NewCollector True 0)))),
      fst (Snapshot flat_hist 1000000000 1000000009 zeroPoolStats
        (RecordRead 5000 (Some ''timeout'') 10 11 12
          (snd (Snapshot flat_hist 1000000000 9 zeroPoolStats
            (RecordWrite 7000 (Some ''connection refused'') 4 5 6
              (RecordRead 5000 None 1 2 3 (NewCollector True 0)))))))]"
  by (simp add: run_def example_calls_def split_beta)

lemma step_windows:
  assumes "readCount c = of_nat r" "writeCount c = of_nat w" "totalQueries c = of_nat t"
  shows "map window_view (snd (foldl (step hs) (c, out) calls))
         = map window_view out @ map as_counters (windows_of r w t calls)"
  using assms
proof (induction calls arbitrary: c out r w t)
  case Nil
  then show ?case by simp
next
  case (Cons ev calls)
  show ?case
  proof (cases ev)
    case (CallRecordRead l e t1 t2 t3)
    have "map window_view (snd (foldl (step hs) (RecordRead l e t1 t2 t3 c, out) calls))
          = map window_view out @ map as_counters (windows_of (Suc r) w (Suc t) calls)"
      using Cons.prems by (intro Cons.IH) (simp_all add: RecordRead_counters)
    with CallRecordRead show ?thesis by simp
  next
    case (CallRecordWrite l e t1 t2 t3)
    have "map window_view (snd (foldl (step hs) (RecordWrite l e t1 t2 t3 c, out) calls))
          = map window_view out @ map as_counters (windows_of r (Suc w) (Suc t) calls)"
      using Cons.prems by (intro Cons.IH) (simp_all add: RecordWrite_counters)
    with CallRecordWrite show ?thesis by simp
  next
    case (CallSnapshot iv now pool)
    define s where "s = fst (Snapshot hs iv now pool c)"
    define c' where "c' = snd (Snapshot hs iv now pool c)"
    have v: "window_view s = as_counters (r, w, t)"
      using Cons.prems by (simp add: s_def window_view_def as_counters_def Snapshot_def Let_def)
    have "map window_view (snd (foldl (step hs) (c', out @ [s]) calls))
          = map window_view (out @ [s]) @ map as_counters (windows_of 0 0 t calls)"
      using Cons.prems by (intro Cons.IH) (simp_all add: c'_def Snapshot_def Let_def)
    with CallSnapshot v show ?thesis by (simp add: s_def c'_def split_beta)
  next
    case (CallReset now)
    have "map window_view (snd (foldl (step hs) (Reset now c, out) calls))
          = map window_view out @ map as_counters (windows_of 0 0 0 calls)"
      by (intro Cons.IH) (simp_all add: Reset_def)
    with CallReset show ?thesis by simp
  qed
qed

lemma run_windows:
  "map window_view (snd (run hs (NewCollector f t0) calls))
     = map as_counters (windows_of 0 0 0 calls)"
  using step_windows [of "NewCollector f t0" 0 0 0 hs "[]" calls]
  by (simp add: run_def NewCollector_def)

lemma tally_step:
  assumes "\<not> is_reset ev"
  shows "totalQueries (fst (step hs st ev))
           = totalQueries (fst st) + (if is_read ev \<or> is_write ev then 1 else 0)"
    and "sum_list (map WindowReads (snd (step hs st ev))) + readCount (fst (step hs st ev))
           = sum_list (map WindowReads (snd st)) + readCount (fst st)
             + (if is_read ev then 1 else 0)"
    and "sum_list (map WindowWrites (snd (step hs st ev))) + writeCount (fst (step hs st ev))
           = sum_list (map WindowWrites (snd st)) + writeCount (fst st)
             + (if is_write ev then 1 else 0)"
    and "length (snd (step hs st ev)) = length (snd st) + (if is_snapshot ev then 1 else 0)"
  using assms
  by (cases st; cases ev;
      simp add: RecordRead_counters RecordWrite_counters Snapshot_def Let_def)+

lemma tally_run:
  assumes "list_all (\<lambda>ev. \<not> is_reset ev) calls"
  shows "totalQueries (fst (run hs (NewCollector f t0) calls))
           = of_nat (length (filter is_read calls) + length (filter is_write calls))
       \<and> sum_list (map WindowReads (snd (run hs (NewCollector f t0) calls)))
           + readCount (fst (run hs (NewCollector f t0) calls))
           = of_nat (length (filter is_read calls))
       \<and> sum_list (map WindowWrites (snd (run hs (NewCollector f t0) calls)))
           + writeCount (fst (run hs (NewCollector f t0) calls))
           = of_nat (length (filter is_write calls))
       \<and> length (snd (run hs (NewCollector f t0) calls)) = length (filter is_snapshot calls)"
  using assms unfolding run_def
proof (induction calls rule: rev_induct)
  case Nil
  then show ?case by (simp add: NewCollector_def)
next
  case (snoc ev calls)
  then have nr: "\<not> is_reset ev" by simp
  from snoc have IH:
    "totalQueries (fst (foldl (step hs) (NewCollector f t0, []) calls))
           = of_nat (length (filter is_read calls) + length (filter is_write calls))"
    "sum_list (map WindowReads (snd (foldl (step hs) (NewCollector f t0, []) calls)))
           + readCount (fst (foldl (step hs) (NewCollector f t0, []) calls))
           = of_nat (length (filter is_read calls))"
    "sum_list (map WindowWrites (snd (foldl (step hs) (NewCollector f t0, []) calls)))
           + writeCount (fst (foldl (step hs) (NewCollector f t0, []) calls))
           = of_nat (length (filter is_write calls))"
    "length (snd (foldl (step hs) (NewCollector f t0, []) calls))
           = length (filter is_snapshot calls)"
    by simp_all
  show ?case
    using tally_step [OF nr, of hs "foldl (step hs) (NewCollector f t0, []) calls"] IH
    by (cases ev) simp_all
qed

lemma sint_of_nat_small:
  fixes k :: nat
  assumes "k < 2 ^ 63"
  shows "sint (of_nat k :: int64) = int k"
proof -
  have "sint (of_nat k :: int64) = of_int (signed_take_bit (LENGTH(64) - Suc 0) (int k))"
    by (rule signed_of_nat)
  also have "\<dots> = signed_take_bit 63 (int k)" by simp
  also have "\<dots> = int k"
    using assms by (simp add: signed_take_bit_int_eq_self)
  finally show ?thesis .
qed

lemma windows_of_bound:
  "x \<in> set (windows_of r w t calls) \<Longrightarrow>
   fst x \<le> r + length calls \<and> fst (snd x) \<le> w + length calls
   \<and> snd (snd x) \<le> t + length calls"
proof (induction r w t calls rule: windows_of.induct)
  case (1 r w t)
  then show ?case by simp
next
  case (2 r w t l e t1 t2 t3 calls)
  then show ?case by fastforce
next
  case (3 r w t l e t1 t2 t3 calls)
  then show ?case by fastforce
next
  case (4 r w t iv now pool calls)
  then show ?case by fastforce
next
  case (5 r w t now calls)
  then show ?case by fastforce
qed

lemma signed_view_of_window_view:
  assumes "window_view s = as_counters x"
    and "fst x < 2 ^ 63" "fst (snd x) < 2 ^ 63" "snd (snd x) < 2 ^ 63"
  shows "signed_view s = as_ints x"
  using assms
  by (simp add: window_view_def as_counters_def signed_view_def as_ints_def sint_of_nat_small)

lemma run_signed_windows:
  assumes "length calls < 2 ^ 63"
  shows "map signed_view (snd (run hs (NewCollector f t0) calls))
         = map as_ints (windows_of 0 0 0 calls)"
proof (rule nth_equalityI)
  have len: "length (snd (run hs (NewCollector f t0) calls)) = length (windows_of 0 0 0 calls)"
    using arg_cong [OF run_windows [of hs f t0 calls], of length] by simp
  then show "length (map signed_view (snd (run hs (NewCollector f t0) calls)))
      = length (map as_ints (windows_of 0 0 0 calls))"
    by simp
  fix i
  assume "i < length (map signed_view (snd (run hs (NewCollector f t0) calls)))"
  then have i: "i < length (snd (run hs (NewCollector f t0) calls))"
    and i': "i < length (windows_of 0 0 0 calls)"
    using len by simp_all
  have "map window_view (snd (run hs (NewCollector f t0) calls)) ! i
        = map as_counters (windows_of 0 0 0 calls) ! i"
    by (simp only: run_windows)
  with i i' have v: "window_view (snd (run hs (NewCollector f t0) calls) ! i)
        = as_counters (windows_of 0 0 0 calls ! i)"
    by simp
  from i' have "windows_of 0 0 0 calls ! i \<in> set (windows_of 0 0 0 calls)" by simp
  from windows_of_bound [OF this] assms
  have b: "fst (windows_of 0 0 0 calls ! i) < 2 ^ 63"
    "fst (snd (windows_of 0 0 0 calls ! i)) < 2 ^ 63"
    "snd (snd (windows_of 0 0 0 calls ! i)) < 2 ^ 63"
    by simp_all
  from signed_view_of_window_view [OF v b] i i'
  show "map signed_view (snd (run hs (NewCollector f t0) calls)) ! i
        = map as_ints (windows_of 0 0 0 calls) ! i"
    by simp
qed

lemma records_le_calls:
  "length (filter is_read calls) + length (filter is_write calls) \<le> length calls"
proof (induction calls)
  case Nil
  then show ?case by simp
next
  case (Cons ev calls)
  then show ?case by (cases ev) simp_all
qed

lemma example_windows: "windows_of 0 0 0 example_calls = [(1, 1, 2), (1, 0, 3)]"
  by (simp add: example_calls_def)

text \<open>
  C1. In a history of calls on a fresh collector that contains no \<open>Reset\<close>: each
  \<open>RecordRead\<close> and each \<open>RecordWrite\<close>, failed or not, adds exactly one to the window count
  of its kind and exactly one to the total, and nothing to the other window count; the
  snapshots emitted are one per \<open>Snapshot\<close> call and each reports exactly the reads and
  writes recorded since the previous one, with the number of all records so far as its
  total; the total is the number of record calls; the window counts of each kind, emitted
  and open, add up to the number of record calls of that kind; and the read and write
  window counts of all emitted snapshots add up to the total that the last snapshot
  reports. All of this holds on the 64-bit counters, and on their integer values in every
  history of fewer than \<open>2 ^ 63\<close> calls.
\<close>

theorem window_counts_sum_to_total:
  assumes "list_all (\<lambda>ev. \<not> is_reset ev) calls"
  shows "(let c = fst (run hs (NewCollector f t0) calls);
              snaps = snd (run hs (NewCollector f t0) calls);
              reads = length (filter is_read calls);
              writes = length (filter is_write calls)
          in map window_view snaps = map as_counters (windows_of 0 0 0 calls)
           \<and> length snaps = length (filter is_snapshot calls)
           \<and> totalQueries c = of_nat (reads + writes)
           \<and> sum_list (map WindowReads snaps) + readCount c = of_nat reads
           \<and> sum_list (map WindowWrites snaps) + writeCount c = of_nat writes
           \<and> (snaps \<noteq> [] \<longrightarrow> window_total snaps = Queries (Totals (last snaps)))
           \<and> (length calls < 2 ^ 63 \<longrightarrow>
                map signed_view snaps = map as_ints (windows_of 0 0 0 calls)
                \<and> sint (totalQueries c) = int (reads + writes))
           \<and> (snaps \<noteq> [] \<and> length calls < 2 ^ 63 \<longrightarrow>
                window_total_int snaps = sint (Queries (Totals (last snaps))))
           \<and> readCount (RecordRead l e t1 t2 t3 c0) = readCount c0 + 1
           \<and> writeCount (RecordRead l e t1 t2 t3 c0) = writeCount c0
           \<and> totalQueries (RecordRead l e t1 t2 t3 c0) = totalQueries c0 + 1
           \<and> writeCount (RecordWrite l e t1 t2 t3 c0) = writeCount c0 + 1
           \<and> readCount (RecordWrite l e t1 t2 t3 c0) = readCount c0
           \<and> totalQueries (RecordWrite l e t1 t2 t3 c0) = totalQueries c0 + 1)"
proof -
  define c where "c = fst (run hs (NewCollector f t0) calls)"
  define snaps where "snaps = snd (run hs (NewCollector f t0) calls)"
  have w: "map window_view snaps = map as_counters (windows_of 0 0 0 calls)"
    unfolding snaps_def by (rule run_windows)
  from tally_run [OF assms, of hs f t0]
  have tally: "totalQueries c
           = of_nat (length (filter is_read calls) + length (filter is_write calls))"
    "sum_list (map WindowReads snaps) + readCount c = of_nat (length (filter is_read calls))"
    "sum_list (map WindowWrites snaps) + writeCount c = of_nat (length (filter is_write calls))"
    "length snaps = length (filter is_snapshot calls)"
    unfolding c_def snaps_def by blast+
  have "accounted (NewCollector f t0, [])"
    by (simp add: accounted_def NewCollector_def window_total_def)
  with assms have "accounted (run hs (NewCollector f t0) calls)"
    by (simp add: accounted_run)
  then have words: "snaps \<noteq> [] \<longrightarrow> window_total snaps = Queries (Totals (last snaps))"
    by (auto simp add: accounted_def snaps_def)
  have sv: "map signed_view snaps = map as_ints (windows_of 0 0 0 calls)"
    and st: "sint (totalQueries c)
             = int (length (filter is_read calls) + length (filter is_write calls))"
    and ints: "snaps \<noteq> [] \<longrightarrow> window_total_int snaps = sint (Queries (Totals (last snaps)))"
    if short: "length calls < 2 ^ 63"
  proof -
    show "map signed_view snaps = map as_ints (windows_of 0 0 0 calls)"
      unfolding snaps_def using short by (rule run_signed_windows)
    have "length (filter is_read calls) + length (filter is_write calls) < 2 ^ 63"
      using records_le_calls [of calls] short by linarith
    then show "sint (totalQueries c)
             = int (length (filter is_read calls) + length (filter is_write calls))"
      unfolding tally(1) by (rule sint_of_nat_small)
    have "accounted_int 0 (NewCollector f t0, [])"
      by (simp add: accounted_int_def NewCollector_def window_total_int_def)
    with assms short
    have "accounted_int (length calls) (run hs (NewCollector f t0) calls)"
      by (simp add: accounted_int_run)
    then show "snaps \<noteq> [] \<longrightarrow> window_total_int snaps = sint (Queries (Totals (last snaps)))"
      by (auto simp add: accounted_int_def snaps_def)
  qed
  from w tally words sv st ints show ?thesis
    unfolding Let_def c_def [symmetric] snaps_def [symmetric]
    by (simp add: RecordRead_counters RecordWrite_counters)
qed

theorem window_counts_sum_to_total_witness:
  "list_all (\<lambda>ev. \<not> is_reset ev) example_calls
   \<and> snd (run flat_hist (NewCollector True 0) example_calls) \<noteq> []
   \<and> length example_calls < 2 ^ 63
   \<and> map signed_view (snd (run flat_hist (NewCollector True 0) example_calls))
       = [(1, 1, 2), (1, 0, 3)]
   \<and> sint (totalQueries (fst (run flat_hist (NewCollector True 0) example_calls))) = 3
   \<and> window_total (snd (run flat_hist (NewCollector True 0) example_calls))
       = Queries (Totals (last (snd (run flat_hist (NewCollector True 0) example_calls))))
   \<and> window_total_int (snd (run flat_hist (NewCollector True 0) example_calls))
       = sint (Queries (Totals (last (snd (run flat_hist (NewCollector True 0) example_calls)))))"
proof -
  have h1: "list_all (\<lambda>ev. \<not> is_reset ev) example_calls"
    by (simp add: example_calls_def)
  have h2: "snd (run flat_hist (NewCollector True 0) example_calls) \<noteq> []"
    by (simp add: example_run)
  have h3: "length example_calls < 2 ^ 63"
    by (simp add: example_calls_def)
  have n: "length (filter is_read example_calls) = 2" "length (filter is_write example_calls) = 1"
    by (simp_all add: example_calls_def)
  from h1 h2 h3
    window_counts_sum_to_total [OF h1, of flat_hist True 0 0 None 0 0 0 "NewCollector True 0",
      unfolded Let_def example_windows n]
  show ?thesis by (simp add: as_ints_def)
qed

lemma f64_div_int64_pos:
  "0 < sint q \<Longrightarrow> f64_div (float64_of_int64 e) (float64_of_int64 q)
     = Fin (real_of_int (sint e) / real_of_int (sint q))"
proof -
  assume "0 < sint q"
  then have "sint q \<noteq> 0" by simp
  then have "real_of_int (sint q) \<noteq> 0" by (simp only: of_int_eq_0_iff not_False_eq_True)
  then show ?thesis unfolding float64_of_int64_def by (simp del: of_int_sint)
qed

text \<open>
  C2. In every snapshot the reported error rate is the total errors divided by the total
  queries when the total queries are positive, and 0.0 otherwise.
\<close>

theorem snapshot_error_rate:
  "(let s = fst (Snapshot hs iv now pool c);
        q = sint (Queries (Totals s)); e = sint (TotalErrors (Totals s))
    in (0 < q \<longrightarrow> ErrorRate (Totals s) = Fin (real_of_int e / real_of_int q))
     \<and> (\<not> 0 < q \<longrightarrow> ErrorRate (Totals s) = Fin 0))"
  by (simp add: Snapshot_def Let_def f64_div_int64_pos del: of_int_sint)

theorem snapshot_error_rate_witness:
  "ErrorRate (Totals (fst (Snapshot flat_hist 1000000000 9 zeroPoolStats
      (RecordWrite 7000 (Some ''connection refused'') 4 5 6
        (RecordRead 5000 None 1 2 3 (NewCollector True 0)))))) = Fin (1 / 2)
   \<and> ErrorRate (Totals (fst (Snapshot flat_hist 1000000000 9 zeroPoolStats
        (NewCollector True 0)))) = Fin 0"
  using snapshot_error_rate [of flat_hist 1000000000 9 zeroPoolStats
      "RecordWrite 7000 (Some ''connection refused'') 4 5 6
        (RecordRead 5000 None 1 2 3 (NewCollector True 0))"]
    snapshot_error_rate [of flat_hist 1000000000 9 zeroPoolStats "NewCollector True 0"]
  by (simp add: Let_def Snapshot_def RecordWrite_def RecordRead_def addError_def
      NewCollector_def)
















section \<open>Properties of the controller\<close>

lemma Start_frame:
  "readLimiter (Start c) = readLimiter c" "writeLimiter (Start c) = writeLimiter c"
  "config (Start c) = config c" "scenario (Start c) = scenario c"
  by (simp_all add: Start_def Let_def)

lemma Stop_frame:
  "readLimiter (Stop c) = readLimiter c" "writeLimiter (Stop c) = writeLimiter c"
  "config (Stop c) = config c" "scenario (Stop c) = scenario c"
  by (simp_all add: Stop_def)

lemma swapScenario_frame:
  "readLimiter (swapScenario cfg c) = readLimiter c"
  "writeLimiter (swapScenario cfg c) = writeLimiter c"
  "config (swapScenario cfg c) = config c"
  "running (swapScenario cfg c) = running c"
  "workers (swapScenario cfg c) = workers c"
  "lifecycle (swapScenario cfg c) = lifecycle c"
  by (simp_all add: swapScenario_def split: option.split)

lemma retune_frame:
  "running (retune cfg c) = running c"
  "workers (retune cfg c) = workers c"
  "lifecycle (retune cfg c) = lifecycle c"
  "scenario (retune cfg c) = scenario c"
  "registry (retune cfg c) = registry c"
  "config (retune cfg c) = cfg"
  by (simp_all add: retune_def)

lemma retune_limiters:
  "limit (readLimiter (retune cfg c)) = float64_of_int (ReadQPS cfg)"
  "burst (readLimiter (retune cfg c)) = max (ReadQPS cfg) 1"
  "limit (writeLimiter (retune cfg c)) = float64_of_int (WriteQPS cfg)"
  "burst (writeLimiter (retune cfg c)) = max (WriteQPS cfg) 1"
  by (simp_all add: retune_def SetLimit_def SetBurst_def)

lemma shaped_frame:
  "running (shaped cfg c) = running c"
  "workers (shaped cfg c) = workers c"
  "lifecycle (shaped cfg c) = lifecycle c"
  "config (shaped cfg c) = cfg"
  "readLimiter (shaped cfg c) = readLimiter (retune cfg c)"
  "writeLimiter (shaped cfg c) = writeLimiter (retune cfg c)"
  by (simp_all add: shaped_def swapScenario_frame retune_frame)

lemma UpdateConfig_shaped:
  "UpdateConfig cfg c = (if needsRestart c cfg then Start (Stop (shaped cfg c)) else shaped cfg c)"
  by (simp add: UpdateConfig_def Let_def shaped_def)

lemma restart_lifecycle:
  "running c \<Longrightarrow>
   lifecycle (Start (Stop c))
     = lifecycle c @ [Stopped, Started (nat (numReaders (config c))) (nat (numWriters (config c)))]"
  by (simp add: Start_def Stop_def Let_def)

lemma restart_workers:
  "running c \<Longrightarrow>
   running (Start (Stop c)) \<and>
   workers (Start (Stop c))
     = replicate (nat (numReaders (config c)))
         (ReadWorker (scenario (Start (Stop c))) (churnPerConnection (config c)))
       @ replicate (nat (numWriters (config c)))
         (WriteWorker (scenario (Start (Stop c))) (churnPerConnection (config c)))"
  by (simp add: Start_def Stop_def Let_def)

lemma bootstrap_fields:
  "running bootstrap = False" "config bootstrap = bootstrap_cfg"
  "workers bootstrap = []" "lifecycle bootstrap = []"
  "scenario bootstrap = Some SimpleScenario"
  by (simp_all add: bootstrap_def SetConfig_def retune_def SetScenario_def NewController_def
      Let_def Get_def NewRegistry_def Register_def bootstrap_cfg_def)

lemma bootstrap_numbers:
  "numReaders bootstrap_cfg = 8" "numWriters bootstrap_cfg = 2"
  "churnPerConnection bootstrap_cfg = Fin 0"
  "numReaders (bootstrap_cfg\<lparr>Connections := 100\<rparr>) = 80"
  "numWriters (bootstrap_cfg\<lparr>Connections := 100\<rparr>) = 20"
  by (simp_all add: numReaders_def numWriters_def churnPerConnection_def bootstrap_cfg_def
      wrap64_def quot_def Let_def)

lemma started_bootstrap:
  "running (Start bootstrap) = True" "config (Start bootstrap) = bootstrap_cfg"
  "lifecycle (Start bootstrap) = [Started 8 2]"
  "workers (Start bootstrap)
     = replicate 8 (ReadWorker (Some SimpleScenario) (Fin 0))
       @ replicate 2 (WriteWorker (Some SimpleScenario) (Fin 0))"
  by (simp_all add: Start_def Let_def bootstrap_fields bootstrap_numbers)

text \<open>
  C4. \<open>UpdateConfig\<close> sets the read and the write limiter to the new rates with burst
  \<open>max qps 1\<close>. It stops and starts the worker fleet (one \<open>Stopped\<close> followed by one
  \<open>Started\<close> in the lifecycle) exactly when the controller is running and the connection
  count, the churn rate, the scenario name or the custom table differs from the old
  configuration; in every other case, a change of the two rates alone among them, the
  workers and the running flag are left as they were.
\<close>

theorem update_config_retunes_and_restarts:
  "(let c' = UpdateConfig cfg c;
        shape = (Connections (config c) \<noteq> Connections cfg
                 \<or> ChurnRate (config c) \<noteq> ChurnRate cfg
                 \<or> Scenario (config c) \<noteq> Scenario cfg
                 \<or> CustomTable (config c) \<noteq> CustomTable cfg)
    in limit (readLimiter c') = float64_of_int (ReadQPS cfg)
     \<and> burst (readLimiter c') = max (ReadQPS cfg) 1
     \<and> limit (writeLimiter c') = float64_of_int (WriteQPS cfg)
     \<and> burst (writeLimiter c') = max (WriteQPS cfg) 1
     \<and> lifecycle c' = lifecycle c @
          (if running c \<and> shape
           then [Stopped, Started (nat (numReaders cfg)) (nat (numWriters cfg))] else [])
     \<and> (running c \<and> shape \<longrightarrow>
          running c'
          \<and> workers c' = replicate (nat (numReaders cfg))
                            (ReadWorker (scenario c') (churnPerConnection cfg))
                          @ replicate (nat (numWriters cfg))
                            (WriteWorker (scenario c') (churnPerConnection cfg)))
     \<and> (\<not> (running c \<and> shape) \<longrightarrow> workers c' = workers c \<and> running c' = running c))"
proof (cases "needsRestart c cfg")
  case True
  then have run: "running (shaped cfg c)" by (simp add: needsRestart_def shaped_frame)
  from True show ?thesis
    using restart_lifecycle [OF run] restart_workers [OF run]
    by (simp add: UpdateConfig_shaped Let_def Start_frame Stop_frame shaped_frame
        retune_limiters needsRestart_def scenarioChanged_def)
next
  case False
  then show ?thesis
    by (auto simp add: UpdateConfig_shaped Let_def shaped_frame retune_limiters
        needsRestart_def scenarioChanged_def)
qed

theorem update_config_retunes_and_restarts_witness:
  "lifecycle (UpdateConfig (bootstrap_cfg\<lparr>ReadQPS := 500, WriteQPS := 50\<rparr>) (Start bootstrap))
     = [Started 8 2]
   \<and> workers (UpdateConfig (bootstrap_cfg\<lparr>ReadQPS := 500, WriteQPS := 50\<rparr>) (Start bootstrap))
     = workers (Start bootstrap)
   \<and> burst (readLimiter (UpdateConfig (bootstrap_cfg\<lparr>ReadQPS := 500, WriteQPS := 50\<rparr>)
       (Start bootstrap))) = 500
   \<and> lifecycle (UpdateConfig (bootstrap_cfg\<lparr>Connections := 100\<rparr>) (Start bootstrap))
     = [Started 8 2, Stopped, Started 80 20]"
  using update_config_retunes_and_restarts
      [of "bootstrap_cfg\<lparr>ReadQPS := 500, WriteQPS := 50\<rparr>" "Start bootstrap"]
    update_config_retunes_and_restarts
      [of "bootstrap_cfg\<lparr>Connections := 100\<rparr>" "Start bootstrap"]
  by (simp add: Let_def started_bootstrap bootstrap_numbers) (simp add: bootstrap_cfg_def)

lemma quot_nonneg: "0 \<le> a \<Longrightarrow> 0 < b \<Longrightarrow> quot a b = a div b"
  by (cases "a = 0") (simp_all add: quot_def)

lemma wrap64_id: "- (2 ^ 63) \<le> x \<Longrightarrow> x < 2 ^ 63 \<Longrightarrow> wrap64 x = x"
  by (simp add: wrap64_def)

lemma floor_four_fifths: "\<lfloor>real_of_int n * 0.8\<rfloor> = n * 80 div 100"
proof -
  have "real_of_int n * 0.8 = real_of_int (n * 80) / real_of_int 100" by simp
  then show ?thesis by (simp only: floor_divide_of_int_eq)
qed

lemma numReaders_eq:
  assumes "0 \<le> Connections cfg" "Connections cfg * 80 < 2 ^ 63"
  shows "numReaders cfg
         = (if Connections cfg > 0 then max 1 \<lfloor>real_of_int (Connections cfg) * 0.8\<rfloor> else 0)"
proof -
  have w: "wrap64 (Connections cfg * 80) = Connections cfg * 80"
    using assms by (intro wrap64_id) auto
  have q: "quot (Connections cfg * 80) 100 = Connections cfg * 80 div 100"
    using assms by (intro quot_nonneg) auto
  show ?thesis using assms unfolding numReaders_def w q Let_def floor_four_fifths by auto
qed

lemma numReaders_le:
  assumes "0 \<le> Connections cfg" "Connections cfg * 80 < 2 ^ 63"
  shows "0 \<le> numReaders cfg" "numReaders cfg \<le> Connections cfg"
  using assms unfolding numReaders_eq [OF assms] floor_four_fifths by auto

lemma numWriters_eq:
  assumes "0 \<le> Connections cfg" "Connections cfg * 80 < 2 ^ 63"
  shows "numWriters cfg = Connections cfg - numReaders cfg"
proof -
  have "wrap64 (Connections cfg - numReaders cfg) = Connections cfg - numReaders cfg"
    using assms numReaders_le [OF assms] by (intro wrap64_id) auto
  then show ?thesis using numReaders_le [OF assms] by (simp add: numWriters_def Let_def)
qed

lemma churn_eq:
  "churnPerConnection cfg
     = (if Connections cfg > 0 \<and> ChurnRate cfg > 0
        then Fin (real_of_int (ChurnRate cfg) / real_of_int (Connections cfg)) else Fin 0)"
  by (simp add: churnPerConnection_def float64_of_int_def)

text \<open>
  C5. On a controller that is not running, with \<open>n\<close> connections and churn rate \<open>ch\<close>
  declared (\<open>n\<close> non-negative and \<open>n * 80\<close> within the range of Go's \<open>int\<close>), \<open>Start\<close>
  spawns \<open>floor (n * 0.8)\<close> readers, raised to 1 when \<open>n > 0\<close>, and \<open>n - readers\<close> writers,
  which is not negative; each worker gets the churn rate \<open>ch / n\<close> when both are positive
  and 0 otherwise, a finite number in every case.
\<close>

theorem start_splits_fleet:
  assumes "\<not> running c"
    and "0 \<le> Connections (config c)" and "Connections (config c) * 80 < 2 ^ 63"
  shows "(let n = Connections (config c); ch = ChurnRate (config c);
              readers = (if n > 0 then max 1 \<lfloor>real_of_int n * 0.8\<rfloor> else 0);
              writers = n - readers;
              rate = (if n > 0 \<and> ch > 0 then Fin (real_of_int ch / real_of_int n) else Fin 0)
          in 0 \<le> writers \<and>
             workers (Start c)
               = workers c @ replicate (nat readers) (ReadWorker (scenario c) rate)
                 @ replicate (nat writers) (WriteWorker (scenario c) rate))"
  using assms(1) numReaders_le [OF assms(2,3)]
  by (simp add: Start_def Let_def numWriters_eq [OF assms(2,3)] churn_eq
      numReaders_eq [OF assms(2,3), symmetric] del: of_int_mult)

theorem start_splits_fleet_witness:
  "\<not> running bootstrap \<and> 0 \<le> Connections (config bootstrap)
   \<and> Connections (config bootstrap) * 80 < 2 ^ 63
   \<and> workers (Start bootstrap)
       = replicate 8 (ReadWorker (Some SimpleScenario) (Fin 0))
         @ replicate 2 (WriteWorker (Some SimpleScenario) (Fin 0))"
proof -
  have h1: "\<not> running bootstrap" by (simp add: bootstrap_fields)
  have h2: "0 \<le> Connections (config bootstrap)"
    by (simp add: bootstrap_fields bootstrap_cfg_def)
  have h3: "Connections (config bootstrap) * 80 < 2 ^ 63"
    by (simp add: bootstrap_fields bootstrap_cfg_def)
  have fl: "\<lfloor>real_of_int 10 * 0.8\<rfloor> = 8" unfolding floor_four_fifths by simp
  have cfg: "Connections (config bootstrap) = 10" "ChurnRate (config bootstrap) = 0"
    by (simp_all add: bootstrap_fields bootstrap_cfg_def)
  from start_splits_fleet [OF h1 h2 h3] h1 h2 h3 show ?thesis
    unfolding cfg Let_def fl by (simp add: bootstrap_fields)
qed

lemma jsonb_controller_fields:
  "scenario jsonb_controller = Some JSONBScenario"
  "Scenario (config jsonb_controller) = ''jsonb''"
  "registry jsonb_controller = NewRegistry"
  by (simp_all add: jsonb_controller_def SetConfig_def retune_def SetScenario_def
      NewController_def Let_def Get_def NewRegistry_def Register_def bootstrap_cfg_def)

text \<open>
  C6. On the controller that runs the jsonb scenario, \<open>UpdateConfig\<close> with the
  unregistered scenario name \<open>nosuch\<close> records the new name in the configuration and keeps
  the jsonb scenario: there is no fallback to the simple scenario. \<open>SetScenario\<close> with the
  same name does fall back to it.
\<close>

theorem update_config_unknown_scenario_keeps_current:
  "Get (registry jsonb_controller) ''nosuch'' = None
   \<and> scenario (UpdateConfig (bootstrap_cfg\<lparr>Scenario := ''nosuch''\<rparr>) jsonb_controller)
       = Some JSONBScenario
   \<and> Scenario (config (UpdateConfig (bootstrap_cfg\<lparr>Scenario := ''nosuch''\<rparr>) jsonb_controller))
       = ''nosuch''
   \<and> scenario (SetScenario ''nosuch'' [] jsonb_controller) = Some SimpleScenario"
  by (simp add: UpdateConfig_shaped shaped_def needsRestart_def Start_frame Stop_frame
      scenarioChanged_def swapScenario_def retune_frame jsonb_controller_fields
      SetScenario_def Get_def NewRegistry_def Register_def bootstrap_cfg_def)

section \<open>Properties of the dynamic scenario\<close>

lemma HasPrefix_append: "HasPrefix (p @ r) p"
  by (induction p) simp_all

lemma HasPrefix_iff: "HasPrefix s p \<longleftrightarrow> (\<exists>r. s = p @ r)"
proof (induction s p rule: HasPrefix.induct)
  case (1 s)
  then show ?case by simp
next
  case (2 p ps)
  then show ?case by simp
next
  case (3 c cs p ps)
  then show ?case by auto
qed

lemma Contains_char: "Contains s [c] \<longleftrightarrow> c \<in> set s"
  by (induction s) auto

lemma SplitN2_join:
  "CHR ''.'' \<in> set s \<Longrightarrow> s = fst (SplitN2 s) @ ''.'' @ snd (SplitN2 s)"
proof (induction s)
  case Nil
  then show ?case by simp
next
  case (Cons c cs)
  then show ?case by (cases "c = CHR ''.''") (simp_all add: SplitN2_def)
qed

lemma SplitN2_first: "CHR ''.'' \<notin> set (fst (SplitN2 s))"
proof
  assume "CHR ''.'' \<in> set (fst (SplitN2 s))"
  then have "CHR ''.'' \<in> set (takeWhile (\<lambda>c. c \<noteq> CHR ''.'') s)" by (simp add: SplitN2_def)
  then show False by (auto dest: set_takeWhileD)
qed

lemma loadColumns_names:
  "schemaName (snd (loadColumns rows s)) = schemaName s
   \<and> tableName (snd (loadColumns rows s)) = tableName s
   \<and> insertQuery (snd (loadColumns rows s)) = insertQuery s
   \<and> maxID (snd (loadColumns rows s)) = maxID s"
  by (induction rows s rule: loadColumns.induct) simp_all

lemma loadColumns_insertable:
  "insertColumns s = filter (\<lambda>c. \<not> IsSerial c) (columns s) \<Longrightarrow>
   insertColumns (snd (loadColumns rows s))
     = filter (\<lambda>c. \<not> IsSerial c) (columns (snd (loadColumns rows s)))"
proof (induction rows s rule: loadColumns.induct)
  case (1 s)
  then show ?case by simp
next
  case (2 e rows s)
  then show ?case by simp
next
  case (3 col rows s)
  define s' where
    "s' = s\<lparr>columns := columns s @ [col],
            insertColumns := (if \<not> IsSerial col then insertColumns s @ [col] else insertColumns s)\<rparr>"
  have "insertColumns s' = filter (\<lambda>c. \<not> IsSerial c) (columns s')"
    using "3.prems" by (simp add: s'_def)
  then have "insertColumns (snd (loadColumns rows s'))
             = filter (\<lambda>c. \<not> IsSerial c) (columns (snd (loadColumns rows s')))"
    unfolding s'_def by (rule "3.IH")
  then show ?case by (simp add: s'_def)
qed

text \<open>The state that a successful \<open>Initialize\<close> builds from the loaded columns.\<close>

lemma built_fields:
  "schemaName (buildSelect (buildInsert (loadIdSource conn (resolvePrimaryKey conn s))))
     = schemaName s"
  "tableName (buildSelect (buildInsert (loadIdSource conn (resolvePrimaryKey conn s))))
     = tableName s"
  "columns (buildSelect (buildInsert (loadIdSource conn (resolvePrimaryKey conn s))))
     = columns s"
  "insertColumns (buildSelect (buildInsert (loadIdSource conn (resolvePrimaryKey conn s))))
     = insertColumns s"
  "primaryKey (buildSelect (buildInsert (loadIdSource conn (resolvePrimaryKey conn s))))
     = primaryKey (resolvePrimaryKey conn s)"
  by (simp_all add: buildSelect_def buildInsert_def loadIdSource_def resolvePrimaryKey_def
      Let_def split: sum.split option.split prod.split)

lemma built_select:
  "selectQuery (buildSelect (buildInsert (loadIdSource conn (resolvePrimaryKey conn s))))
     = ''SELECT '' @ Join (map Name (columns s)) '', ''
       @ '' FROM '' @ schemaName s @ ''.'' @ tableName s
       @ '' WHERE '' @ primaryKey (resolvePrimaryKey conn s) @ '' = $1''"
  by (simp add: buildSelect_def buildInsert_def loadIdSource_def resolvePrimaryKey_def
      Let_def split: sum.split option.split prod.split)

lemma placeholders_upt: "placeholders k = map (\<lambda>i. ''$'' @ decimal i) [1..<Suc k]"
proof -
  have "map (\<lambda>i. ''$'' @ decimal i) [Suc 0..<Suc k]
        = map (\<lambda>i. ''$'' @ decimal i) (map Suc [0..<k])"
    by (simp only: map_Suc_upt)
  then show ?thesis by (simp add: placeholders_def)
qed

lemma built_insert:
  "insertQuery (buildSelect (buildInsert (loadIdSource conn (resolvePrimaryKey conn s))))
     = (if insertColumns s \<noteq> [] then
          ''INSERT INTO '' @ schemaName s @ ''.'' @ tableName s
          @ '' ('' @ Join (map Name (insertColumns s)) '', ''
          @ '') VALUES ('' @ Join (placeholders (length (insertColumns s))) '', ''
          @ '') RETURNING '' @ primaryKey (resolvePrimaryKey conn s) @ ''::text''
        else insertQuery s)"
  by (simp add: buildSelect_def buildInsert_def loadIdSource_def resolvePrimaryKey_def
      Let_def split: sum.split option.split prod.split)

lemma built_maxID:
  "1 \<le> maxID s \<Longrightarrow>
   1 \<le> maxID (buildSelect (buildInsert (loadIdSource conn (resolvePrimaryKey conn s))))"
  by (simp add: buildSelect_def buildInsert_def loadIdSource_def resolvePrimaryKey_def
      Let_def split: sum.split option.split prod.split)

lemma discover_names:
  "tableName s \<noteq> [] \<Longrightarrow> discover conn s = (None, s)"
  by (simp add: discover_def)

lemma discover_insertQuery:
  "insertQuery (snd (discover conn s)) = insertQuery s"
  "maxID (snd (discover conn s)) = maxID s"
  by (simp_all add: discover_def split: sum.split prod.split)

text \<open>
  A successful first initialisation, in one equation: the state is built from the columns
  that the catalog returned for the (possibly discovered) table.
\<close>

lemma Initialize_success:
  assumes "\<not> initialized s0" and "fst (Initialize conn s0) = None"
  obtains s2 where
    "snd (Initialize conn s0)
       = (buildSelect (buildInsert (loadIdSource conn (resolvePrimaryKey conn s2))))
           \<lparr>initialized := True\<rparr>"
    and "insertColumns s2 = filter (\<lambda>c. \<not> IsSerial c) (columns s2)"
    and "columns s2 \<noteq> []"
    and "insertQuery s2 = insertQuery s0 \<and> maxID s2 = maxID s0"
    and "tableName s0 \<noteq> [] \<longrightarrow> tableName s2 = tableName s0 \<and> schemaName s2 = schemaName s0"
proof -
  obtain e1 s1 where d: "discover conn s0 = (e1, s1)" by (cases "discover conn s0")
  with assms have e1: "e1 = None"
    by (cases e1) (simp_all add: Initialize_def)
  from d have s1: "insertQuery s1 = insertQuery s0" "maxID s1 = maxID s0"
    using discover_insertQuery [of conn s0] by simp_all
  from d have nm: "tableName s0 \<noteq> [] \<longrightarrow> s1 = s0"
    by (auto simp add: discover_names)
  obtain rows where r: "columnRows conn (schemaName s1) (tableName s1) = Inr rows"
    using assms d e1
    by (cases "columnRows conn (schemaName s1) (tableName s1)") (simp_all add: Initialize_def)
  define s2 where "s2 = snd (loadColumns rows (s1\<lparr>columns := [], insertColumns := []\<rparr>))"
  obtain e2 where l: "loadColumns rows (s1\<lparr>columns := [], insertColumns := []\<rparr>) = (e2, s2)"
    unfolding s2_def by (cases "loadColumns rows (s1\<lparr>columns := [], insertColumns := []\<rparr>)") simp
  from assms d e1 r l have e2: "e2 = None"
    by (cases e2) (simp_all add: Initialize_def)
  from assms d e1 r l e2 have ne: "columns s2 \<noteq> []"
    by (auto simp add: Initialize_def split: if_splits)
  from assms d e1 r l e2 ne have res:
    "snd (Initialize conn s0)
       = (buildSelect (buildInsert (loadIdSource conn (resolvePrimaryKey conn s2))))
           \<lparr>initialized := True\<rparr>"
    by (simp add: Initialize_def)
  have ins: "insertColumns s2 = filter (\<lambda>c. \<not> IsSerial c) (columns s2)"
    unfolding s2_def by (rule loadColumns_insertable) simp
  have names: "schemaName s2 = schemaName s1" "tableName s2 = tableName s1"
    "insertQuery s2 = insertQuery s1" "maxID s2 = maxID s1"
    unfolding s2_def
    using loadColumns_names [of rows "s1\<lparr>columns := [], insertColumns := []\<rparr>"] by simp_all
  from names s1 have iq: "insertQuery s2 = insertQuery s0 \<and> maxID s2 = maxID s0" by simp
  from names nm have keep:
    "tableName s0 \<noteq> [] \<longrightarrow> tableName s2 = tableName s0 \<and> schemaName s2 = schemaName s0"
    by auto
  from res ins ne iq keep show thesis by (rule that)
qed

lemmas init_defs = Initialize_def NewCustomScenario_def SplitN2_def discover_def Let_def
  resolvePrimaryKey_def loadIdSource_def isIntegerPK_def ToLower_def lower_char_def
  buildInsert_def buildSelect_def placeholders_def decimal.simps digit_def

lemma widgets_initialized:
  "Initialize widgets_conn (NewCustomScenario ''test.widgets'') = (None,
     \<lparr>tableName = ''widgets'', schemaName = ''test'', initialized = True,
      columns = [\<lparr>Name = ''id'', DataType = ''integer'', IsNullable = False,
                  HasDefault = True, IsSerial = True\<rparr>,
                 \<lparr>Name = ''label'', DataType = ''text'', IsNullable = True,
                  HasDefault = False, IsSerial = False\<rparr>],
      insertColumns = [\<lparr>Name = ''label'', DataType = ''text'', IsNullable = True,
                        HasDefault = False, IsSerial = False\<rparr>],
      primaryKey = ''id'', primaryKeyType = ''integer'',
      insertQuery = ''INSERT INTO test.widgets (label) VALUES ($1) RETURNING id::text'',
      selectQuery = ''SELECT id, label FROM test.widgets WHERE id = $1'',
      maxID = 5, ids = []\<rparr>)"
  by (simp add: init_defs widgets_conn_def)

lemma items_initialized:
  "Initialize items_conn (NewCustomScenario ''items'') = (None,
     \<lparr>tableName = ''items'', schemaName = ''public'', initialized = True,
      columns = [\<lparr>Name = ''id'', DataType = ''uuid'', IsNullable = False,
                  HasDefault = True, IsSerial = False\<rparr>,
                 \<lparr>Name = ''label'', DataType = ''text'', IsNullable = True,
                  HasDefault = False, IsSerial = False\<rparr>],
      insertColumns = [\<lparr>Name = ''id'', DataType = ''uuid'', IsNullable = False,
                        HasDefault = True, IsSerial = False\<rparr>,
                       \<lparr>Name = ''label'', DataType = ''text'', IsNullable = True,
                        HasDefault = False, IsSerial = False\<rparr>],
      primaryKey = ''id'', primaryKeyType = ''uuid'',
      insertQuery = ''INSERT INTO public.items (id, label) VALUES ($1, $2) RETURNING id::text'',
      selectQuery = ''SELECT id, label FROM public.items WHERE id = $1'',
      maxID = 100000, ids = []\<rparr>)"
  by (simp add: init_defs items_conn_def)

lemma counters_initialized:
  "Initialize counters_conn (NewCustomScenario ''counters'') = (None,
     \<lparr>tableName = ''counters'', schemaName = ''public'', initialized = True,
      columns = [\<lparr>Name = ''id'', DataType = ''bigint'', IsNullable = False,
                  HasDefault = True, IsSerial = True\<rparr>],
      insertColumns = [],
      primaryKey = ''id'', primaryKeyType = ''bigint'',
      insertQuery = [],
      selectQuery = ''SELECT id FROM public.counters WHERE id = $1'',
      maxID = 100000, ids = []\<rparr>)"
  by (simp add: init_defs counters_conn_def)

text \<open>
  After a successful initialisation of a freshly created scenario the upper bound \<open>maxID\<close>
  is at least 1, whichever id source was chosen. So \<open>pickId\<close> always yields an id, and a
  write on an empty cache never adds to it.
\<close>

lemma fresh_initialized_maxID:
  assumes "fst (Initialize conn (NewCustomScenario name)) = None"
  shows "1 \<le> maxID (snd (Initialize conn (NewCustomScenario name)))"
proof -
  have ni: "\<not> initialized (NewCustomScenario name)"
    by (simp add: NewCustomScenario_def split_beta)
  from ni assms obtain s2 where
    res: "snd (Initialize conn (NewCustomScenario name))
       = (buildSelect (buildInsert (loadIdSource conn (resolvePrimaryKey conn s2))))
           \<lparr>initialized := True\<rparr>"
    and iq: "insertQuery s2 = insertQuery (NewCustomScenario name)
             \<and> maxID s2 = maxID (NewCustomScenario name)"
    by (rule Initialize_success)
  have "maxID (NewCustomScenario name) = 100000"
    by (simp add: NewCustomScenario_def split_beta)
  with iq have "1 \<le> maxID s2" by simp
  then show ?thesis unfolding res using built_maxID [of s2 conn] by simp
qed

lemma pickId_Some: "1 \<le> maxID s \<Longrightarrow> pickId rnd s \<noteq> None"
  by (simp add: pickId_def Let_def)

lemma cacheNewID_empty: "1 \<le> maxID s \<Longrightarrow> ids s = [] \<Longrightarrow> cacheNewID rnd newID s = s"
  by (simp add: cacheNewID_def)

text \<open>
  C3. The dynamic scenario on the empty table \<open>public.items\<close>, whose primary key is a
  uuid: initialisation succeeds, selects the id cache (the key is not of the integer
  family) and leaves the cache empty, with \<open>maxID\<close> still at its initial 100000. The read
  that follows is not a no-op: it sends the select statement with the integer id 42 drawn
  from \<open>1..maxID\<close>. The write that follows succeeds, and the returned id is not added to the
  cache.
\<close>

theorem empty_cache_read_queries_and_write_skips_cache:
  "(let s = snd (Initialize items_conn (NewCustomScenario ''items''))
    in fst (Initialize items_conn (NewCustomScenario ''items'')) = None
     \<and> \<not> isIntegerPK (primaryKeyType s) \<and> ids s = [] \<and> maxID s = 100000
     \<and> fst (snd (ExecuteRead items_conn 41 s))
         = [(''SELECT id, label FROM public.items WHERE id = $1'', IdInt 42)]
     \<and> ExecuteWrite items_conn 41 s = (None, s)
     \<and> ids (snd (ExecuteWrite items_conn 41 s)) = [])"
  unfolding items_initialized Let_def
  by (simp add: ExecuteRead_def ExecuteWrite_def ensureInitialized_def pickId_def
      cacheNewID_def isIntegerPK_def ToLower_def lower_char_def Let_def items_conn_def)

text \<open>
  C8, as stated, fails on a table whose columns are all serial: for
  \<open>public.counters(id bigserial primary key)\<close> initialisation succeeds and the insert
  statement is left empty, not built from the (empty) list of non-serial columns.
\<close>

theorem insert_statement_counterexample:
  "fst (Initialize counters_conn (NewCustomScenario ''counters'')) = None
   \<and> initialized (snd (Initialize counters_conn (NewCustomScenario ''counters'')))
   \<and> insertQuery (snd (Initialize counters_conn (NewCustomScenario ''counters'')))
       \<noteq> ''INSERT INTO public.counters () VALUES () RETURNING id::text''
   \<and> insertQuery (snd (Initialize counters_conn (NewCustomScenario ''counters''))) = []"
  unfolding counters_initialized by simp

text \<open>
  C8, amended. After a successful first initialisation of a dynamic scenario, with
  \<open>cols\<close> the discovered columns and \<open>pk\<close> the primary key: the insertable columns are the
  non-serial columns in discovery order; the select statement lists all columns by name
  and filters by the single placeholder \<open>$1\<close> on \<open>pk\<close>; and when there is at least one
  non-serial column the insert statement lists exactly the non-serial columns, with the
  placeholders \<open>$1\<close> to \<open>$k\<close>, and ends with \<open>RETURNING pk::text\<close>. When every column is
  serial no insert statement is built: it stays as it was.
\<close>

theorem built_statements:
  assumes "\<not> initialized s0" and "fst (Initialize conn s0) = None"
  shows "(let s = snd (Initialize conn s0); k = length (insertColumns s)
          in initialized s
           \<and> insertColumns s = filter (\<lambda>c. \<not> IsSerial c) (columns s)
           \<and> selectQuery s
               = ''SELECT '' @ Join (map Name (columns s)) '', ''
                 @ '' FROM '' @ schemaName s @ ''.'' @ tableName s
                 @ '' WHERE '' @ primaryKey s @ '' = $1''
           \<and> (insertColumns s \<noteq> [] \<longrightarrow>
                insertQuery s
                  = ''INSERT INTO '' @ schemaName s @ ''.'' @ tableName s
                    @ '' ('' @ Join (map Name (filter (\<lambda>c. \<not> IsSerial c) (columns s))) '', ''
                    @ '') VALUES ('' @ Join (map (\<lambda>i. ''$'' @ decimal i) [1..<Suc k]) '', ''
                    @ '') RETURNING '' @ primaryKey s @ ''::text'')
           \<and> (insertColumns s = [] \<longrightarrow> insertQuery s = insertQuery s0))"
proof -
  from assms obtain s2 where
    res: "snd (Initialize conn s0)
       = (buildSelect (buildInsert (loadIdSource conn (resolvePrimaryKey conn s2))))
           \<lparr>initialized := True\<rparr>"
    and ins: "insertColumns s2 = filter (\<lambda>c. \<not> IsSerial c) (columns s2)"
    and iq: "insertQuery s2 = insertQuery s0 \<and> maxID s2 = maxID s0"
    by (rule Initialize_success)
  show ?thesis
    unfolding res Let_def
    by (simp add: built_fields built_select built_insert placeholders_upt ins iq)
qed

theorem built_statements_witness:
  "\<not> initialized (NewCustomScenario ''test.widgets'')
   \<and> fst (Initialize widgets_conn (NewCustomScenario ''test.widgets'')) = None
   \<and> insertColumns (snd (Initialize widgets_conn (NewCustomScenario ''test.widgets''))) \<noteq> []
   \<and> insertQuery (snd (Initialize widgets_conn (NewCustomScenario ''test.widgets'')))
       = ''INSERT INTO test.widgets (label) VALUES ($1) RETURNING id::text''
   \<and> selectQuery (snd (Initialize widgets_conn (NewCustomScenario ''test.widgets'')))
       = ''SELECT id, label FROM test.widgets WHERE id = $1''
   \<and> insertColumns (snd (Initialize counters_conn (NewCustomScenario ''counters''))) = []
   \<and> insertQuery (snd (Initialize counters_conn (NewCustomScenario ''counters''))) = []"
proof -
  have h1: "\<not> initialized (NewCustomScenario ''test.widgets'')"
    by (simp add: NewCustomScenario_def split_beta)
  have h2: "fst (Initialize widgets_conn (NewCustomScenario ''test.widgets'')) = None"
    by (simp add: widgets_initialized)
  have h3: "\<not> initialized (NewCustomScenario ''counters'')"
    by (simp add: NewCustomScenario_def split_beta)
  have h4: "fst (Initialize counters_conn (NewCustomScenario ''counters'')) = None"
    by (simp add: counters_initialized)
  from built_statements [OF h1 h2] built_statements [OF h3 h4] h1 h2 show ?thesis
    unfolding widgets_initialized counters_initialized Let_def
    by (simp add: decimal.simps digit_def NewCustomScenario_def)
qed

lemma NewCustomScenario_fields:
  "initialized (NewCustomScenario name) = False"
  "schemaName (NewCustomScenario name)
     = (if CHR ''.'' \<in> set name then fst (SplitN2 name) else ''public'')"
  "tableName (NewCustomScenario name)
     = (if CHR ''.'' \<in> set name then snd (SplitN2 name) else name)"
  by (auto simp add: NewCustomScenario_def split_beta Contains_char)

lemma resolvePrimaryKey_names:
  "schemaName (resolvePrimaryKey conn s) = schemaName s"
  "tableName (resolvePrimaryKey conn s) = tableName s"
  by (simp_all add: resolvePrimaryKey_def split: sum.split prod.split)

lemma resolvePrimaryKey_cong:
  "primaryKeyRow conn' (schemaName s @ ''.'' @ tableName s)
     = primaryKeyRow conn (schemaName s @ ''.'' @ tableName s) \<Longrightarrow>
   resolvePrimaryKey conn' s = resolvePrimaryKey conn s"
  by (simp add: resolvePrimaryKey_def)

lemma loadIdSource_cong:
  assumes "maxRow conn' (''SELECT MAX('' @ primaryKey s @ '') FROM '' @ schemaName s
                          @ ''.'' @ tableName s)
           = maxRow conn (''SELECT MAX('' @ primaryKey s @ '') FROM '' @ schemaName s
                          @ ''.'' @ tableName s)"
    and "idRows conn' (''SELECT '' @ primaryKey s @ ''::text FROM '' @ schemaName s
                        @ ''.'' @ tableName s @ '' LIMIT 10000'')
         = idRows conn (''SELECT '' @ primaryKey s @ ''::text FROM '' @ schemaName s
                        @ ''.'' @ tableName s @ '' LIMIT 10000'')"
  shows "loadIdSource conn' s = loadIdSource conn s"
  unfolding loadIdSource_def assms ..

lemma Initialize_cong:
  assumes t: "tableName s \<noteq> []"
    and same: "same_introspection conn conn' (schemaName s) (tableName s)"
  shows "Initialize conn' s = Initialize conn s"
proof (cases "initialized s")
  case True
  then show ?thesis by (simp add: Initialize_def)
next
  case False
  from same have cols: "columnRows conn' (schemaName s) (tableName s)
      = columnRows conn (schemaName s) (tableName s)"
    by (simp add: same_introspection_def)
  show ?thesis
  proof (cases "columnRows conn (schemaName s) (tableName s)")
    case (Inl e)
    with False t cols show ?thesis by (simp add: Initialize_def discover_names)
  next
    case (Inr rows)
    obtain e2 s2 where l: "loadColumns rows (s\<lparr>columns := [], insertColumns := []\<rparr>) = (e2, s2)"
      by (cases "loadColumns rows (s\<lparr>columns := [], insertColumns := []\<rparr>)")
    have names: "schemaName s2 = schemaName s" "tableName s2 = tableName s"
      using loadColumns_names [of rows "s\<lparr>columns := [], insertColumns := []\<rparr>"] l by simp_all
    have pk: "resolvePrimaryKey conn' s2 = resolvePrimaryKey conn s2"
      using same by (intro resolvePrimaryKey_cong) (simp add: same_introspection_def names)
    have ids: "loadIdSource conn' (resolvePrimaryKey conn s2)
             = loadIdSource conn (resolvePrimaryKey conn s2)"
      using same
      by (intro loadIdSource_cong)
        (simp_all add: same_introspection_def names resolvePrimaryKey_names)
    from False t cols Inr l pk ids show ?thesis
      by (cases e2) (simp_all add: Initialize_def discover_names)
  qed
qed

lemma Initialize_names:
  assumes t: "tableName s \<noteq> []"
  shows "schemaName (snd (Initialize conn s)) = schemaName s
       \<and> tableName (snd (Initialize conn s)) = tableName s"
proof (cases "initialized s")
  case True
  then show ?thesis by (simp add: Initialize_def)
next
  case False
  show ?thesis
  proof (cases "columnRows conn (schemaName s) (tableName s)")
    case (Inl e)
    with False t show ?thesis by (simp add: Initialize_def discover_names)
  next
    case (Inr rows)
    obtain e2 s2 where l: "loadColumns rows (s\<lparr>columns := [], insertColumns := []\<rparr>) = (e2, s2)"
      by (cases "loadColumns rows (s\<lparr>columns := [], insertColumns := []\<rparr>)")
    have names: "schemaName s2 = schemaName s" "tableName s2 = tableName s"
      using loadColumns_names [of rows "s\<lparr>columns := [], insertColumns := []\<rparr>"] l by simp_all
    from False t Inr l names show ?thesis
      by (cases e2) (simp_all add: Initialize_def discover_names built_fields)
  qed
qed

lemma items_only_same:
  "same_introspection items_conn items_only_conn ''public'' ''items''"
  by (simp add: same_introspection_def items_only_conn_def)

text \<open>
  C10. A scenario created from a name without a dot has the schema \<open>public\<close> and the name
  as its table; one created from a name with a dot has as schema the text before the
  first dot and as table the text after it. When the table is not empty:
  initialisation keeps both, whatever its outcome; it reads the database only through
  the introspection queries on that schema and table (two connections that answer alike
  on them give the same result); and after a successful one the select statement and the
  insert statement (built when some column is not serial) are written on that schema and
  table.
\<close>

theorem new_custom_scenario_names:
  "(let s = NewCustomScenario name; s' = snd (Initialize conn s)
    in (\<not> Contains name ''.'' \<longrightarrow> schemaName s = ''public'' \<and> tableName s = name)
     \<and> (Contains name ''.'' \<longrightarrow>
          name = schemaName s @ ''.'' @ tableName s \<and> \<not> Contains (schemaName s) ''.'')
     \<and> (tableName s \<noteq> [] \<longrightarrow> schemaName s' = schemaName s \<and> tableName s' = tableName s)
     \<and> (tableName s \<noteq> [] \<and> same_introspection conn conn' (schemaName s) (tableName s) \<longrightarrow>
          Initialize conn' s = Initialize conn s)
     \<and> (tableName s \<noteq> [] \<and> fst (Initialize conn s) = None \<longrightarrow>
          selectQuery s'
            = ''SELECT '' @ Join (map Name (columns s')) '', ''
              @ '' FROM '' @ schemaName s @ ''.'' @ tableName s
              @ '' WHERE '' @ primaryKey s' @ '' = $1''
          \<and> (insertColumns s' \<noteq> [] \<longrightarrow>
                insertQuery s'
                  = ''INSERT INTO '' @ schemaName s @ ''.'' @ tableName s
                    @ '' ('' @ Join (map Name (insertColumns s')) '', ''
                    @ '') VALUES ('' @ Join (placeholders (length (insertColumns s'))) '', ''
                    @ '') RETURNING '' @ primaryKey s' @ ''::text'')
          \<and> (insertColumns s' = [] \<longrightarrow> insertQuery s' = [])))"
proof -
  define s where "s = NewCustomScenario name"
  have a: "\<not> Contains name ''.'' \<longrightarrow> schemaName s = ''public'' \<and> tableName s = name"
    by (simp add: s_def NewCustomScenario_fields Contains_char)
  have b: "Contains name ''.'' \<longrightarrow>
      name = schemaName s @ ''.'' @ tableName s \<and> \<not> Contains (schemaName s) ''.''"
    using SplitN2_join [of name] SplitN2_first [of name]
    by (simp add: s_def NewCustomScenario_fields Contains_char)
  have c: "tableName s \<noteq> [] \<longrightarrow>
      schemaName (snd (Initialize conn s)) = schemaName s
      \<and> tableName (snd (Initialize conn s)) = tableName s"
    using Initialize_names [of s conn] by blast
  have d: "tableName s \<noteq> [] \<and> same_introspection conn conn' (schemaName s) (tableName s) \<longrightarrow>
      Initialize conn' s = Initialize conn s"
    using Initialize_cong [of s conn conn'] by blast
  have e: "selectQuery (snd (Initialize conn s))
            = ''SELECT '' @ Join (map Name (columns (snd (Initialize conn s)))) '', ''
              @ '' FROM '' @ schemaName s @ ''.'' @ tableName s
              @ '' WHERE '' @ primaryKey (snd (Initialize conn s)) @ '' = $1''
          \<and> (insertColumns (snd (Initialize conn s)) \<noteq> [] \<longrightarrow>
                insertQuery (snd (Initialize conn s))
                  = ''INSERT INTO '' @ schemaName s @ ''.'' @ tableName s
                    @ '' ('' @ Join (map Name (insertColumns (snd (Initialize conn s)))) '', ''
                    @ '') VALUES (''
                    @ Join (placeholders (length (insertColumns (snd (Initialize conn s))))) '', ''
                    @ '') RETURNING '' @ primaryKey (snd (Initialize conn s)) @ ''::text'')
          \<and> (insertColumns (snd (Initialize conn s)) = [] \<longrightarrow>
                insertQuery (snd (Initialize conn s)) = [])"
    if t: "tableName s \<noteq> []" and ok: "fst (Initialize conn s) = None"
  proof -
    have ni: "\<not> initialized s" by (simp add: s_def NewCustomScenario_fields)
    from ni ok obtain s2 where
      res: "snd (Initialize conn s)
         = (buildSelect (buildInsert (loadIdSource conn (resolvePrimaryKey conn s2))))
             \<lparr>initialized := True\<rparr>"
      and iq: "insertQuery s2 = insertQuery s \<and> maxID s2 = maxID s"
      and keep: "tableName s \<noteq> [] \<longrightarrow> tableName s2 = tableName s \<and> schemaName s2 = schemaName s"
      by (rule Initialize_success)
    from keep t have k: "tableName s2 = tableName s" "schemaName s2 = schemaName s"
      by simp_all
    have q0: "insertQuery s = []" by (simp add: s_def NewCustomScenario_def split_beta)
    show ?thesis
      unfolding res by (simp add: built_fields built_select built_insert k iq q0)
  qed
  from a b c d e show ?thesis unfolding Let_def s_def [symmetric] by blast
qed

theorem new_custom_scenario_names_witness:
  "\<not> Contains ''widgets'' ''.''
   \<and> schemaName (NewCustomScenario ''widgets'') = ''public''
   \<and> tableName (NewCustomScenario ''widgets'') = ''widgets''
   \<and> Contains ''test.widgets.v2'' ''.''
   \<and> schemaName (NewCustomScenario ''test.widgets.v2'') = ''test''
   \<and> tableName (NewCustomScenario ''test.widgets.v2'') = ''widgets.v2''
   \<and> tableName (NewCustomScenario ''items'') \<noteq> []
   \<and> same_introspection items_conn items_only_conn
        (schemaName (NewCustomScenario ''items'')) (tableName (NewCustomScenario ''items''))
   \<and> Initialize items_only_conn (NewCustomScenario ''items'')
       = Initialize items_conn (NewCustomScenario ''items'')
   \<and> fst (Initialize items_conn (NewCustomScenario ''items'')) = None
   \<and> insertColumns (snd (Initialize items_conn (NewCustomScenario ''items''))) \<noteq> []
   \<and> selectQuery (snd (Initialize items_conn (NewCustomScenario ''items'')))
       = ''SELECT id, label FROM public.items WHERE id = $1''
   \<and> insertQuery (snd (Initialize items_conn (NewCustomScenario ''items'')))
       = ''INSERT INTO public.items (id, label) VALUES ($1, $2) RETURNING id::text''
   \<and> schemaName (snd (Initialize items_conn (NewCustomScenario ''items''))) = ''public''
   \<and> tableName (snd (Initialize items_conn (NewCustomScenario ''items''))) = ''items''
   \<and> tableName (NewCustomScenario ''counters'') \<noteq> []
   \<and> fst (Initialize counters_conn (NewCustomScenario ''counters'')) = None
   \<and> insertColumns (snd (Initialize counters_conn (NewCustomScenario ''counters''))) = []
   \<and> insertQuery (snd (Initialize counters_conn (NewCustomScenario ''counters''))) = []"
proof -
  have c1: "\<not> Contains ''widgets'' ''.''" and c2: "Contains ''test.widgets.v2'' ''.''"
    by simp_all
  have n: "schemaName (NewCustomScenario ''items'') = ''public''"
    "tableName (NewCustomScenario ''items'') = ''items''"
    by (simp_all add: NewCustomScenario_def)
  have t: "tableName (NewCustomScenario ''items'') \<noteq> []"
    by (simp add: n)
  have same: "same_introspection items_conn items_only_conn
        (schemaName (NewCustomScenario ''items'')) (tableName (NewCustomScenario ''items''))"
    unfolding n by (rule items_only_same)
  have ok: "fst (Initialize items_conn (NewCustomScenario ''items'')) = None"
    by (simp add: items_initialized)
  have ic: "insertColumns (snd (Initialize items_conn (NewCustomScenario ''items''))) \<noteq> []"
    by (simp add: items_initialized)
  note W = new_custom_scenario_names [of "''widgets''" items_conn items_conn, unfolded Let_def]
  note V = new_custom_scenario_names [of "''test.widgets.v2''" items_conn items_conn,
      unfolded Let_def]
  note T = new_custom_scenario_names [of "''items''" items_conn items_only_conn,
      unfolded Let_def]
  from W [THEN conjunct1] c1
  have w: "schemaName (NewCustomScenario ''widgets'') = ''public''
      \<and> tableName (NewCustomScenario ''widgets'') = ''widgets''"
    by (rule mp)
  from V [THEN conjunct2, THEN conjunct1] c2
  have "''test.widgets.v2'' = schemaName (NewCustomScenario ''test.widgets.v2'') @ ''.''
          @ tableName (NewCustomScenario ''test.widgets.v2'')
        \<and> \<not> Contains (schemaName (NewCustomScenario ''test.widgets.v2'')) ''.''"
    by (rule mp)
  then have v: "schemaName (NewCustomScenario ''test.widgets.v2'') = ''test''
      \<and> tableName (NewCustomScenario ''test.widgets.v2'') = ''widgets.v2''"
    by (simp add: NewCustomScenario_def SplitN2_def)
  from T [THEN conjunct2, THEN conjunct2, THEN conjunct2, THEN conjunct1] t same
  have cong: "Initialize items_only_conn (NewCustomScenario ''items'')
       = Initialize items_conn (NewCustomScenario ''items'')"
    by blast
  from T [THEN conjunct2, THEN conjunct2, THEN conjunct2, THEN conjunct2] t ok
  have built: "selectQuery (snd (Initialize items_conn (NewCustomScenario ''items'')))
            = ''SELECT ''
              @ Join (map Name (columns (snd (Initialize items_conn (NewCustomScenario ''items'')))))
                  '', ''
              @ '' FROM '' @ schemaName (NewCustomScenario ''items'') @ ''.''
              @ tableName (NewCustomScenario ''items'')
              @ '' WHERE '' @ primaryKey (snd (Initialize items_conn (NewCustomScenario ''items'')))
              @ '' = $1''
          \<and> (insertColumns (snd (Initialize items_conn (NewCustomScenario ''items''))) \<noteq> [] \<longrightarrow>
                insertQuery (snd (Initialize items_conn (NewCustomScenario ''items'')))
                  = ''INSERT INTO '' @ schemaName (NewCustomScenario ''items'') @ ''.''
                    @ tableName (NewCustomScenario ''items'')
                    @ '' (''
                    @ Join (map Name (insertColumns
                        (snd (Initialize items_conn (NewCustomScenario ''items''))))) '', ''
                    @ '') VALUES (''
                    @ Join (placeholders (length (insertColumns
                        (snd (Initialize items_conn (NewCustomScenario ''items'')))))) '', ''
                    @ '') RETURNING ''
                    @ primaryKey (snd (Initialize items_conn (NewCustomScenario ''items'')))
                    @ ''::text'')
          \<and> (insertColumns (snd (Initialize items_conn (NewCustomScenario ''items''))) = [] \<longrightarrow>
                insertQuery (snd (Initialize items_conn (NewCustomScenario ''items''))) = [])"
    by blast
  from built have sq: "selectQuery (snd (Initialize items_conn (NewCustomScenario ''items'')))
       = ''SELECT id, label FROM public.items WHERE id = $1''"
    unfolding n by (simp add: items_initialized)
  from built ic have iq: "insertQuery (snd (Initialize items_conn (NewCustomScenario ''items'')))
       = ''INSERT INTO public.items (id, label) VALUES ($1, $2) RETURNING id::text''"
    unfolding n by (simp add: items_initialized placeholders_def decimal.simps digit_def)
  from T [THEN conjunct2, THEN conjunct2, THEN conjunct1] t
  have kept: "schemaName (snd (Initialize items_conn (NewCustomScenario ''items'')))
        = schemaName (NewCustomScenario ''items'')
      \<and> tableName (snd (Initialize items_conn (NewCustomScenario ''items'')))
        = tableName (NewCustomScenario ''items'')"
    by (rule mp)
  then have k: "schemaName (snd (Initialize items_conn (NewCustomScenario ''items''))) = ''public''
      \<and> tableName (snd (Initialize items_conn (NewCustomScenario ''items''))) = ''items''"
    unfolding n .
  note C = new_custom_scenario_names [of "''counters''" counters_conn counters_conn,
      unfolded Let_def]
  have ct: "tableName (NewCustomScenario ''counters'') \<noteq> []"
    by (simp add: NewCustomScenario_def)
  have cok: "fst (Initialize counters_conn (NewCustomScenario ''counters'')) = None"
    by (simp add: counters_initialized)
  have cic: "insertColumns (snd (Initialize counters_conn (NewCustomScenario ''counters''))) = []"
    by (simp add: counters_initialized)
  from C [THEN conjunct2, THEN conjunct2, THEN conjunct2, THEN conjunct2] ct cok cic
  have ciq: "insertQuery (snd (Initialize counters_conn (NewCustomScenario ''counters''))) = []"
    by blast
  from c1 w c2 v t same cong ok ic sq iq k ct cok cic ciq show ?thesis
    by (intro conjI) blast+
qed

section \<open>Properties of the value generator\<close>

lemma no_name_pattern:
  "name_pattern (ToLower ''amount'') = None"
  by (simp add: name_pattern_def ToLower_def lower_char_def)

text \<open>
  C9, as stated, fails for a numeric column: for the column \<open>amount\<close>, whose name matches
  no pattern, of type \<open>numeric\<close> the generator draws from the range 0 to 100,000, not 0 to
  10,000.
\<close>

theorem numeric_range_counterexample:
  "is_ascii ''amount'' \<and> is_ascii ''numeric''
   \<and> name_pattern (ToLower ''amount'') = None
   \<and> HasPrefix (ToLower ''numeric'') ''numeric''
   \<and> GenerateValue ''numeric'' ''amount'' \<noteq> Float64Range 0 10000
   \<and> GenerateValue ''numeric'' ''amount'' = Float64Range 0 100000"
  by (simp add: GenerateValue_def no_name_pattern by_type_def is_ascii_def)
    (simp add: ToLower_def lower_char_def)

lemma by_type_float4:
  "t = ''real'' \<or> t = ''float4'' \<Longrightarrow> by_type t = Float32Range 0 1000"
  by (elim disjE) (simp_all add: by_type_def)

lemma by_type_float8:
  "t = ''double precision'' \<or> t = ''float8'' \<Longrightarrow> by_type t = Float64Range 0 10000"
  by (elim disjE) (simp_all add: by_type_def)

lemma by_type_numeric:
  assumes "HasPrefix t ''numeric'' \<or> HasPrefix t ''decimal''"
  shows "by_type t = Float64Range 0 100000"
proof -
  have n: "by_type (''numeric'' @ r) = Float64Range 0 100000" for r
    by (simp add: by_type_def)
  have d: "by_type (''decimal'' @ r) = Float64Range 0 100000" for r
    by (simp add: by_type_def)
  from assms consider r where "t = ''numeric'' @ r" | r where "t = ''decimal'' @ r"
    unfolding HasPrefix_iff by blast
  then show ?thesis
  proof cases
    case 1
    then show ?thesis by (simp only: n)
  next
    case 2
    then show ?thesis by (simp only: d)
  qed
qed

text \<open>
  C9, amended. For an ASCII column name that matches no name pattern and an ASCII column
  type, compared in lower case: the types \<open>real\<close> and \<open>float4\<close> draw a 32-bit float from the
  uniform range 0 to 1,000; \<open>double precision\<close> and \<open>float8\<close> draw from the uniform range 0 to
  10,000; a type that starts with \<open>numeric\<close> or \<open>decimal\<close> draws from the uniform range 0 to
  100,000.
\<close>

theorem float_ranges_by_type:
  assumes "is_ascii colName" and "is_ascii colType"
    and "name_pattern (ToLower colName) = None"
  shows "(ToLower colType = ''real'' \<or> ToLower colType = ''float4'' \<longrightarrow>
            GenerateValue colType colName = Float32Range 0 1000)
       \<and> (ToLower colType = ''double precision'' \<or> ToLower colType = ''float8'' \<longrightarrow>
            GenerateValue colType colName = Float64Range 0 10000)
       \<and> (HasPrefix (ToLower colType) ''numeric'' \<or> HasPrefix (ToLower colType) ''decimal'' \<longrightarrow>
            GenerateValue colType colName = Float64Range 0 100000)"
  using assms(3) by_type_float4 [of "ToLower colType"] by_type_float8 [of "ToLower colType"]
    by_type_numeric [of "ToLower colType"]
  by (simp add: GenerateValue_def)

theorem float_ranges_by_type_witness:
  "is_ascii ''amount'' \<and> is_ascii ''REAL'' \<and> is_ascii ''Double Precision''
   \<and> is_ascii ''numeric(10,2)''
   \<and> name_pattern (ToLower ''amount'') = None
   \<and> GenerateValue ''REAL'' ''amount'' = Float32Range 0 1000
   \<and> GenerateValue ''Double Precision'' ''amount'' = Float64Range 0 10000
   \<and> GenerateValue ''numeric(10,2)'' ''amount'' = Float64Range 0 100000"
proof -
  have a: "is_ascii ''amount''" "is_ascii ''REAL''" "is_ascii ''Double Precision''"
    "is_ascii ''numeric(10,2)''"
    by (simp_all add: is_ascii_def)
  have l: "ToLower ''REAL'' = ''real''" "ToLower ''Double Precision'' = ''double precision''"
    "ToLower ''numeric(10,2)'' = ''numeric(10,2)''"
    by (simp_all add: ToLower_def lower_char_def)
  from float_ranges_by_type [OF a(1) a(2) no_name_pattern]
    float_ranges_by_type [OF a(1) a(3) no_name_pattern]
    float_ranges_by_type [OF a(1) a(4) no_name_pattern] a no_name_pattern
  show ?thesis unfolding l by simp
qed

end
